theory Spec2Isabelle
  imports Complex_Main "HOL-Library.Log_Nat" "HOL-Library.AList"
begin

unbundle bit_operations_syntax

section \<open>Python values and errors\<close>

text \<open>
  The module \<^verbatim>\<open>roborock/containers.py\<close> is embedded function by function. Python's
  unbounded integers are \<^typ>\<open>int\<close>, its strings are \<^typ>\<open>string\<close> (ASCII text),
  and every exception the code can raise is a value of \<open>py_error\<close>, returned on the left of a sum.
  A Python \<^verbatim>\<open>float\<close> is represented by the rational number it denotes exactly.
\<close>

datatype py_error =
    ValueError
  | TypeError
  | AttributeError
  | OverflowError
  | OSError
  | ZeroDivisionError
  | ValidationError
  | RoborockException
  | RoborockExceptionFrom py_error

subsection \<open>The builtin \<^verbatim>\<open>int(s)\<close> and \<^verbatim>\<open>int(s, 16)\<close> on strings\<close>

text \<open>
  CPython's conversion strips surrounding white space, reads an optional sign, for base 16 an
  optional \<^verbatim>\<open>0x\<close> prefix (which one underscore may follow), and then digits in which single
  underscores may separate digits. Anything else raises \<^verbatim>\<open>ValueError\<close>. For a base
  that is not a power of two the conversion also raises \<^verbatim>\<open>ValueError\<close> when the text has
  more digits than \<^verbatim>\<open>sys.get_int_max_str_digits()\<close>, which is 4300 unless the interpreter
  is configured otherwise; leading zeros count, underscores do not.
\<close>

definition int_max_str_digits :: nat where
  "int_max_str_digits = 4300"

definition binary_base :: "nat \<Rightarrow> bool" where
  "binary_base base = (base \<in> set [2, 4, 8, 16, 32])"

definition count_digits :: "string \<Rightarrow> nat" where
  "count_digits s = length (filter (\<lambda>c. c \<noteq> CHR ''_'') s)"

definition py_isspace :: "char \<Rightarrow> bool" where
  "py_isspace c = (of_char c \<in> set [9, 10, 11, 12, 13, 28, 29, 30, 31, 32 :: nat])"

definition digit_val :: "nat \<Rightarrow> char \<Rightarrow> nat option" where
  "digit_val base c =
     (let n = (of_char c :: nat);
          v = (if 48 \<le> n \<and> n \<le> 57 then Some (n - 48)
               else if 97 \<le> n \<and> n \<le> 122 then Some (n - 87)
               else if 65 \<le> n \<and> n \<le> 90 then Some (n - 55)
               else None)
      in case v of None \<Rightarrow> None | Some d \<Rightarrow> if d < base then Some d else None)"

fun scan_digits :: "nat \<Rightarrow> bool \<Rightarrow> int \<Rightarrow> string \<Rightarrow> (int \<times> string) option" where
  "scan_digits base prev acc [] = (if prev then None else Some (acc, []))"
| "scan_digits base prev acc (c # cs) =
     (if c = CHR ''_'' then (if prev then None else scan_digits base True acc cs)
      else case digit_val base c of
             Some d \<Rightarrow> scan_digits base False (acc * int base + int d) cs
           | None \<Rightarrow> if prev then None else Some (acc, c # cs))"

definition strip_sign :: "string \<Rightarrow> bool \<times> string" where
  "strip_sign s =
     (case s of
        [] \<Rightarrow> (False, s)
      | c # cs \<Rightarrow> if c = CHR ''-'' then (True, cs) else if c = CHR ''+'' then (False, cs) else (False, s))"

definition strip_prefix16 :: "nat \<Rightarrow> string \<Rightarrow> string" where
  "strip_prefix16 base s =
     (case s of
        a # b # cs \<Rightarrow>
          if base = 16 \<and> a = CHR ''0'' \<and> (b = CHR ''x'' \<or> b = CHR ''X'')
          then (case cs of [] \<Rightarrow> cs | u # cs' \<Rightarrow> if u = CHR ''_'' then cs' else cs)
          else s
      | _ \<Rightarrow> s)"

definition py_int :: "nat \<Rightarrow> string \<Rightarrow> py_error + int" where
  "py_int base s =
     (let (neg, s2) = strip_sign (dropWhile py_isspace s);
          s3 = strip_prefix16 base s2
      in case s3 of
           [] \<Rightarrow> Inl ValueError
         | c # _ \<Rightarrow>
             if digit_val base c = None then Inl ValueError
             else (case scan_digits base False 0 s3 of
                     None \<Rightarrow> Inl ValueError
                   | Some (v, rest) \<Rightarrow>
                       if \<not> binary_base base
                          \<and> int_max_str_digits < count_digits (take (length s3 - length rest) s3)
                       then Inl ValueError
                       else if dropWhile py_isspace rest = [] then Inr (if neg then - v else v)
                       else Inl ValueError))"

subsection \<open>True division of integers and \<^verbatim>\<open>int(float)\<close>\<close>

text \<open>
  \<^verbatim>\<open>a / b\<close> on two Python integers is the IEEE-754 double nearest to the exact quotient
  (ties to the even significand); a quotient beyond the range of a double raises
  \<^verbatim>\<open>OverflowError\<close>, a zero divisor \<^verbatim>\<open>ZeroDivisionError\<close>.
\<close>

definition round_half_even :: "rat \<Rightarrow> int" where
  "round_half_even q =
     (let f = \<lfloor>q\<rfloor>; r = q - of_int f
      in if r < 1 / 2 then f else if 1 / 2 < r then f + 1 else if even f then f else f + 1)"

definition floor_log2_quot :: "int \<Rightarrow> int \<Rightarrow> int" where
  "floor_log2_quot n d =
     (let e0 = bitlen n - bitlen d
      in if (2::rat) powi e0 * of_int d \<le> of_int n then e0 else e0 - 1)"

definition nearest_double :: "int \<Rightarrow> int \<Rightarrow> py_error + rat" where
  "nearest_double n d =
     (if n = 0 then Inr 0
      else let e = max (floor_log2_quot \<bar>n\<bar> \<bar>d\<bar>) (- 1022);
               u = (2::rat) powi (e - 52);
               m = round_half_even (of_int \<bar>n\<bar> / of_int \<bar>d\<bar> / u);
               r = of_int m * u
           in if 2 powi 1024 \<le> r then Inl OverflowError
              else Inr (of_int (sgn n * sgn d) * r))"

definition py_truediv :: "int \<Rightarrow> int \<Rightarrow> py_error + rat" where
  "py_truediv a b = (if b = 0 then Inl ZeroDivisionError else nearest_double a b)"

definition py_int_of_float :: "rat \<Rightarrow> int" where
  "py_int_of_float x = (if 0 \<le> x then \<lfloor>x\<rfloor> else \<lceil>x\<rceil>)"

definition py_and_int :: "int \<Rightarrow> int \<Rightarrow> int" where
  "py_and_int a b = (if a = 0 then a else b)"

section \<open>The capability decoder\<close>

record DeviceFeatures =
  map_carpet_add_supported :: bool
  show_clean_finish_reason_supported :: bool
  resegment_supported :: bool
  video_monitor_supported :: bool
  any_state_transit_goto_supported :: bool
  fw_filter_obstacle_supported :: bool
  video_setting_supported :: bool
  ignore_unknown_map_object_supported :: bool
  set_child_supported :: bool
  carpet_supported :: bool
  mop_path_supported :: bool
  multi_map_segment_timer_supported :: bool
  custom_water_box_distance_supported :: bool
  wash_then_charge_cmd_supported :: bool
  room_name_supported :: bool
  current_map_restore_enabled :: bool
  photo_upload_supported :: bool
  shake_mop_set_supported :: bool
  map_beautify_internal_debug_supported :: bool
  new_data_for_clean_history :: bool
  new_data_for_clean_history_detail :: bool
  flow_led_setting_supported :: bool
  dust_collection_setting_supported :: bool
  rpc_retry_supported :: bool
  avoid_collision_supported :: bool
  support_set_switch_map_mode :: bool
  support_smart_scene :: bool
  support_floor_edit :: bool
  support_furniture :: bool
  support_room_tag :: bool
  support_quick_map_builder :: bool
  support_smart_global_clean_with_custom_mode :: bool
  record_allowed :: bool
  careful_slow_map_supported :: bool
  egg_mode_supported :: bool
  unsave_map_reason_supported :: bool
  carpet_show_on_map :: bool
  supported_valley_electricity :: bool
  drying_supported :: bool
  download_test_voice_supported :: bool
  support_backup_map :: bool
  support_custom_mode_in_cleaning :: bool
  support_remote_control_in_call :: bool
  support_set_volume_in_call :: bool
  support_clean_estimate :: bool
  support_custom_dnd :: bool
  carpet_deep_clean_supported :: bool
  stuck_zone_supported :: bool
  custom_door_sill_supported :: bool
  clean_route_fast_mode_supported :: bool
  cliff_zone_supported :: bool
  smart_door_sill_supported :: bool
  support_floor_direction :: bool
  wifi_manage_supported :: bool
  back_charge_auto_wash_supported :: bool
  support_incremental_map :: bool
  offline_map_supported :: bool

definition last8 :: "string \<Rightarrow> string" where
  "last8 s = drop (length s - 8) s"

definition new_feature_set_divided_of :: "int \<Rightarrow> py_error + int" where
  "new_feature_set_divided_of new_feature_set_int =
     (case py_truediv new_feature_set_int (2 ^ 32) of
        Inl e \<Rightarrow> Inl e
      | Inr q \<Rightarrow> Inr (py_int_of_float q))"

definition device_features_of :: "int \<Rightarrow> int \<Rightarrow> int \<Rightarrow> int \<Rightarrow> bool \<Rightarrow> DeviceFeatures" where
  "device_features_of feature_set_int new_feature_set_int new_feature_set_divided
       converted_new_feature_set new_feature_set_mod_8 =
     \<lparr>
        map_carpet_add_supported = (1073741824 AND new_feature_set_int \<noteq> 0),
        show_clean_finish_reason_supported = (1 AND new_feature_set_int \<noteq> 0),
        resegment_supported = (4 AND new_feature_set_int \<noteq> 0),
        video_monitor_supported = (8 AND new_feature_set_int \<noteq> 0),
        any_state_transit_goto_supported = (16 AND new_feature_set_int \<noteq> 0),
        fw_filter_obstacle_supported = (32 AND new_feature_set_int \<noteq> 0),
        video_setting_supported = (64 AND new_feature_set_int \<noteq> 0),
        ignore_unknown_map_object_supported = (128 AND new_feature_set_int \<noteq> 0),
        set_child_supported = (256 AND new_feature_set_int \<noteq> 0),
        carpet_supported = (512 AND new_feature_set_int \<noteq> 0),
        mop_path_supported = (2048 AND new_feature_set_int \<noteq> 0),
        multi_map_segment_timer_supported = (py_and_int feature_set_int (4096 AND new_feature_set_int) \<noteq> 0),
        custom_water_box_distance_supported = (py_and_int new_feature_set_int (2147483648 AND new_feature_set_int) \<noteq> 0),
        wash_then_charge_cmd_supported = (drop_bit 5 new_feature_set_divided AND 1 \<noteq> 0),
        room_name_supported = (16384 AND new_feature_set_int \<noteq> 0),
        current_map_restore_enabled = (8192 AND new_feature_set_int \<noteq> 0),
        photo_upload_supported = (65536 AND new_feature_set_int \<noteq> 0),
        shake_mop_set_supported = (262144 AND new_feature_set_int \<noteq> 0),
        map_beautify_internal_debug_supported = (2097152 AND new_feature_set_int \<noteq> 0),
        new_data_for_clean_history = (4194304 AND new_feature_set_int \<noteq> 0),
        new_data_for_clean_history_detail = (8388608 AND new_feature_set_int \<noteq> 0),
        flow_led_setting_supported = (16777216 AND new_feature_set_int \<noteq> 0),
        dust_collection_setting_supported = (33554432 AND new_feature_set_int \<noteq> 0),
        rpc_retry_supported = (67108864 AND new_feature_set_int \<noteq> 0),
        avoid_collision_supported = (134217728 AND new_feature_set_int \<noteq> 0),
        support_set_switch_map_mode = (268435456 AND new_feature_set_int \<noteq> 0),
        support_smart_scene = (new_feature_set_divided AND 2 \<noteq> 0),
        support_floor_edit = (new_feature_set_divided AND 8 \<noteq> 0),
        support_furniture = (drop_bit 4 new_feature_set_divided AND 1 \<noteq> 0),
        support_room_tag = (drop_bit 6 new_feature_set_divided AND 1 \<noteq> 0),
        support_quick_map_builder = (drop_bit 7 new_feature_set_divided AND 1 \<noteq> 0),
        support_smart_global_clean_with_custom_mode = (drop_bit 8 new_feature_set_divided AND 1 \<noteq> 0),
        record_allowed = (1024 AND new_feature_set_int \<noteq> 0),
        careful_slow_map_supported = (drop_bit 9 new_feature_set_divided AND 1 \<noteq> 0),
        egg_mode_supported = (drop_bit 10 new_feature_set_divided AND 1 \<noteq> 0),
        unsave_map_reason_supported = (drop_bit 14 new_feature_set_divided AND 1 \<noteq> 0),
        carpet_show_on_map = (drop_bit 12 new_feature_set_divided AND 1 \<noteq> 0),
        supported_valley_electricity = (drop_bit 13 new_feature_set_divided AND 1 \<noteq> 0),
        drying_supported = (drop_bit 15 new_feature_set_divided AND 1 \<noteq> 0),
        download_test_voice_supported = (drop_bit 16 new_feature_set_divided AND 1 \<noteq> 0),
        support_backup_map = (drop_bit 17 new_feature_set_divided AND 1 \<noteq> 0),
        support_custom_mode_in_cleaning = (drop_bit 18 new_feature_set_divided AND 1 \<noteq> 0),
        support_remote_control_in_call = (drop_bit 19 new_feature_set_divided AND 1 \<noteq> 0),
        support_set_volume_in_call = (new_feature_set_mod_8 \<and> 1 AND converted_new_feature_set \<noteq> 0),
        support_clean_estimate = (new_feature_set_mod_8 \<and> 2 AND converted_new_feature_set \<noteq> 0),
        support_custom_dnd = (new_feature_set_mod_8 \<and> 4 AND converted_new_feature_set \<noteq> 0),
        carpet_deep_clean_supported = (8 AND converted_new_feature_set \<noteq> 0),
        stuck_zone_supported = (new_feature_set_mod_8 \<and> 16 AND converted_new_feature_set \<noteq> 0),
        custom_door_sill_supported = (new_feature_set_mod_8 \<and> 32 AND converted_new_feature_set \<noteq> 0),
        clean_route_fast_mode_supported = (256 AND converted_new_feature_set \<noteq> 0),
        cliff_zone_supported = (new_feature_set_mod_8 \<and> 512 AND converted_new_feature_set \<noteq> 0),
        smart_door_sill_supported = (new_feature_set_mod_8 \<and> 1024 AND converted_new_feature_set \<noteq> 0),
        support_floor_direction = (new_feature_set_mod_8 \<and> 2048 AND converted_new_feature_set \<noteq> 0),
        wifi_manage_supported = (128 AND converted_new_feature_set \<noteq> 0),
        back_charge_auto_wash_supported = (4096 AND converted_new_feature_set \<noteq> 0),
        support_incremental_map = (8192 AND converted_new_feature_set \<noteq> 0),
        offline_map_supported = (16384 AND converted_new_feature_set \<noteq> 0)
     \<rparr>"

definition build_device_features :: "string \<Rightarrow> string \<Rightarrow> py_error + DeviceFeatures" where
  "build_device_features feature_set new_feature_set =
     (case py_int 10 new_feature_set of
        Inl e \<Rightarrow> Inl e
      | Inr new_feature_set_int \<Rightarrow>
     (case py_int 10 feature_set of
        Inl e \<Rightarrow> Inl e
      | Inr feature_set_int \<Rightarrow>
     (case new_feature_set_divided_of new_feature_set_int of
        Inl e \<Rightarrow> Inl e
      | Inr new_feature_set_divided \<Rightarrow>
     (case py_int 16 (''0x'' @ last8 new_feature_set) of
        Inl e \<Rightarrow> Inl e
      | Inr converted_new_feature_set \<Rightarrow>
          Inr (device_features_of feature_set_int new_feature_set_int new_feature_set_divided
                 converted_new_feature_set (length new_feature_set mod 8 = 0))))))"

definition new_feature_set_divided_str :: "string \<Rightarrow> py_error + int" where
  "new_feature_set_divided_str new_feature_set =
     (case py_int 10 new_feature_set of
        Inl e \<Rightarrow> Inl e
      | Inr new_feature_set_int \<Rightarrow> new_feature_set_divided_of new_feature_set_int)"

text \<open>
  The inputs the specification speaks of are strings of decimal digits; \<open>decimal_value\<close> is the
  number such a string denotes, and \<open>decimal_value s div 2 ^ 32\<close> its part beyond the low 32 bits.
\<close>

definition is_digit :: "char \<Rightarrow> bool" where
  "is_digit c = (c \<in> set ''0123456789'')"

definition is_decimal :: "string \<Rightarrow> bool" where
  "is_decimal s = (s \<noteq> [] \<and> list_all is_digit s)"

definition decimal_value_from :: "int \<Rightarrow> string \<Rightarrow> int" where
  "decimal_value_from acc s = foldl (\<lambda>a c. a * 10 + (int (of_char c) - 48)) acc s"

definition decimal_value :: "string \<Rightarrow> int" where
  "decimal_value s = decimal_value_from 0 s"

section \<open>The name transcoder\<close>

text \<open>
  \<^verbatim>\<open>camelize\<close> and \<^verbatim>\<open>decamelize\<close> work on ASCII names: \<^verbatim>\<open>str.lower\<close>, \<^verbatim>\<open>str.title\<close>
  and the pattern \<^verbatim>\<open>[A-Z]+\<close> are modelled on the letters \<open>a\<close> to \<open>z\<close> and \<open>A\<close> to \<open>Z\<close>.
\<close>

definition upper_letters :: string where
  "upper_letters = ''ABCDEFGHIJKLMNOPQRSTUVWXYZ''"

definition lower_letters :: string where
  "lower_letters = ''abcdefghijklmnopqrstuvwxyz''"

definition is_upper :: "char \<Rightarrow> bool" where
  "is_upper c = (c \<in> set upper_letters)"

definition is_lower :: "char \<Rightarrow> bool" where
  "is_lower c = (c \<in> set lower_letters)"

definition to_lower :: "char \<Rightarrow> char" where
  "to_lower c = (case map_of (zip upper_letters lower_letters) c of None \<Rightarrow> c | Some l \<Rightarrow> l)"

definition to_upper :: "char \<Rightarrow> char" where
  "to_upper c = (case map_of (zip lower_letters upper_letters) c of None \<Rightarrow> c | Some u \<Rightarrow> u)"

definition str_lower :: "string \<Rightarrow> string" where
  "str_lower s = map to_lower s"

fun title_from :: "bool \<Rightarrow> string \<Rightarrow> string" where
  "title_from prev_cased [] = []"
| "title_from prev_cased (c # cs) =
     (if prev_cased then to_lower c else to_upper c) # title_from (is_upper c \<or> is_lower c) cs"

definition str_title :: "string \<Rightarrow> string" where
  "str_title s = title_from False s"

fun split_on :: "char \<Rightarrow> string \<Rightarrow> string list" where
  "split_on sep [] = [[]]"
| "split_on sep (c # cs) =
     (if c = sep then [] # split_on sep cs
      else (case split_on sep cs of [] \<Rightarrow> [[c]] | w # ws \<Rightarrow> (c # w) # ws))"

definition camelize :: "string \<Rightarrow> string" where
  "camelize s =
     (case split_on CHR ''_'' s of
        [] \<Rightarrow> s
      | first # others \<Rightarrow>
          if length others = 0 then s
          else concat (str_lower first # map str_title others))"

fun underscore_runs :: "bool \<Rightarrow> string \<Rightarrow> string" where
  "underscore_runs in_run [] = []"
| "underscore_runs in_run (c # cs) =
     (if is_upper c \<and> \<not> in_run then CHR ''_'' # c # underscore_runs True cs
      else c # underscore_runs (is_upper c) cs)"

definition decamelize :: "string \<Rightarrow> string" where
  "decamelize s = str_lower (underscore_runs False s)"

section \<open>Schemas and values\<close>

text \<open>
  A class derived from \<^verbatim>\<open>RoborockBase\<close> is a declaration that pydantic interprets: a list of
  fields with their types and defaults, the private attribute \<^verbatim>\<open>_ignore_keys\<close>, and what the
  class overrides (the construction hook, \<^verbatim>\<open>as_dict\<close>). A class is therefore a value of type
  \<open>model\<close>. An enumeration class is known by its table of names and integer codes.
\<close>

type_synonym enum_table = "(string \<times> int) list"

datatype hook = NoHook | StatusPostInit | CleanSummaryPostInit | CleanRecordPostInit | TimerInit

datatype as_dict_kind = BaseAsDict | RRiotAsDict | UserDataAsDict

datatype scalar = SInt | SStr | SBool | SFloat | STime | SDateTime

datatype fdefault = Required | DefaultNone | DefaultFactoryList

datatype ftype =
    TAny
  | TNoneType
  | TScalar scalar
  | TDict
  | TEnum enum_table
  | TList ftype
  | TOptional ftype
  | TModel model
and model =
    Model (model_name: string) (model_fields: "field list") (model_ignore_keys: "string list")
          (model_hook: hook) (model_as_dict: as_dict_kind)
and field =
    Field (field_name: string) (field_type: ftype) (field_default: fdefault)

text \<open>
  The values that payloads and objects hold. A \<^verbatim>\<open>dict\<close> is the list of its items in insertion
  order; an instance of a model class carries its class and its attributes in field order; a
  member of an enumeration carries the table of its class and its code.
\<close>

datatype pyval =
    PNone
  | PBool bool
  | PInt int
  | PFloat rat
  | PStr string
  | PList "pyval list"
  | PDict "(string \<times> pyval) list"
  | PEnum enum_table int
  | PTime int int
  | PDateTime int
  | PObj model "(string \<times> pyval) list"

type_synonym attrs = "(string \<times> pyval) list"

text \<open>A dict comprehension inserts its items one after the other; a later item with the same key
  replaces the value and keeps the place of the earlier one.\<close>

definition dict_from :: "(string \<times> 'v) list \<Rightarrow> (string \<times> 'v) list" where
  "dict_from items = foldl (\<lambda>d (k, v). AList.update k v d) [] items"

definition not_none_items :: "attrs \<Rightarrow> attrs" where
  "not_none_items items = filter (\<lambda>(k, v). v \<noteq> PNone) items"

section \<open>Encoding: \<^verbatim>\<open>model_dump\<close> and \<^verbatim>\<open>as_dict\<close>\<close>

text \<open>
  \<^verbatim>\<open>model_dump(exclude_none=True)\<close> turns an instance into a dict of its fields under their
  declared names, leaves out the fields that are \<^verbatim>\<open>None\<close>, and does the same with every
  instance nested in a field, a list or a dict. Members of enumerations stay as they are.
\<close>

fun model_dump_value :: "pyval \<Rightarrow> pyval"
and dump_fields :: "attrs \<Rightarrow> attrs"
and dump_items :: "attrs \<Rightarrow> attrs"
and dump_list :: "pyval list \<Rightarrow> pyval list"
where
  "model_dump_value (PObj m fs) = PDict (dump_fields fs)"
| "model_dump_value (PList xs) = PList (dump_list xs)"
| "model_dump_value (PDict items) = PDict (dump_items items)"
| "model_dump_value PNone = PNone"
| "model_dump_value (PBool b) = PBool b"
| "model_dump_value (PInt n) = PInt n"
| "model_dump_value (PFloat x) = PFloat x"
| "model_dump_value (PStr s) = PStr s"
| "model_dump_value (PEnum tbl c) = PEnum tbl c"
| "model_dump_value (PTime h mi) = PTime h mi"
| "model_dump_value (PDateTime t) = PDateTime t"
| "dump_fields [] = []"
| "dump_fields (kv # fs) =
     (if snd kv = PNone then dump_fields fs
      else (fst kv, model_dump_value (snd kv)) # dump_fields fs)"
| "dump_items [] = []"
| "dump_items (kv # items) = (fst kv, model_dump_value (snd kv)) # dump_items items"
| "dump_list [] = []"
| "dump_list (x # xs) = model_dump_value x # dump_list xs"

definition model_dump :: "attrs \<Rightarrow> attrs" where
  "model_dump fs = dump_fields fs"

fun obj_count :: "pyval \<Rightarrow> nat"
and obj_count_items :: "attrs \<Rightarrow> nat"
and obj_count_list :: "pyval list \<Rightarrow> nat"
where
  "obj_count (PObj m fs) = Suc (obj_count_items fs)"
| "obj_count (PList xs) = obj_count_list xs"
| "obj_count (PDict items) = obj_count_items items"
| "obj_count PNone = 0"
| "obj_count (PBool b) = 0"
| "obj_count (PInt n) = 0"
| "obj_count (PFloat x) = 0"
| "obj_count (PStr s) = 0"
| "obj_count (PEnum tbl c) = 0"
| "obj_count (PTime h mi) = 0"
| "obj_count (PDateTime t) = 0"
| "obj_count_items [] = 0"
| "obj_count_items (kv # items) = obj_count (snd kv) + obj_count_items items"
| "obj_count_list [] = 0"
| "obj_count_list (x # xs) = obj_count x + obj_count_list xs"

lemma model_dump_value_not_obj: "model_dump_value v \<noteq> PObj m fs"
  by (cases v) simp_all

lemma dump_fields_not_obj: "kv \<in> set (dump_fields fs) \<Longrightarrow> snd kv \<noteq> PObj m' fs'"
  by (induction fs) (auto simp: model_dump_value_not_obj split: if_splits)

lemma attr_size: "(k, v) \<in> set fs \<Longrightarrow> size v < size (PObj m fs)"
  by (induction fs) auto

lemma foldl_update_subset:
  "set (foldl (\<lambda>d (k, v). AList.update k v d) d items) \<subseteq> set d \<union> set items"
proof (induction items arbitrary: d)
  case Nil
  then show ?case by simp
next
  case (Cons kv items)
  obtain k v where kv: "kv = (k, v)" by (cases kv)
  have "set (AList.update k v d) \<subseteq> insert (k, v) (set d)"
    by (induction d) auto
  with Cons.IH[of "AList.update k v d"] show ?case
    by (auto simp: kv)
qed

lemma dict_from_subset: "set (dict_from items) \<subseteq> set items"
  using foldl_update_subset[of "[]" items] by (simp add: dict_from_def)

text \<open>
  \<^verbatim>\<open>RoborockBase.as_dict\<close>, with the overriding methods of \<^verbatim>\<open>RRiot\<close> and
  \<^verbatim>\<open>UserData\<close>. The comprehension runs over the items of \<^verbatim>\<open>model_dump\<close>; its test
  \<^verbatim>\<open>isinstance(value, RoborockBase)\<close> is the case \<open>PObj\<close>, its test
  \<^verbatim>\<open>isinstance(value, Enum)\<close> the case \<open>PEnum\<close>. A value that has no such method yields
  no items.
\<close>

function as_dict :: "pyval \<Rightarrow> attrs" where
  "as_dict (PObj m fs) =
     (let result = not_none_items (dict_from (map
            (\<lambda>kv. (camelize (fst kv),
                   (case snd kv of
                      PObj m' fs' \<Rightarrow> PDict (as_dict (snd kv))
                    | PEnum tbl c \<Rightarrow> PInt c
                    | _ \<Rightarrow> snd kv)))
            (model_dump fs)))
      in case model_as_dict m of
           BaseAsDict \<Rightarrow> result
         | RRiotAsDict \<Rightarrow>
             (case map_of fs ''r'' of
                Some (PObj rm rfs) \<Rightarrow> AList.update ''r'' (PDict (as_dict (PObj rm rfs))) result
              | _ \<Rightarrow> result)
         | UserDataAsDict \<Rightarrow>
             map (\<lambda>kv. (fst kv, (case snd kv of PObj m' fs' \<Rightarrow> PDict (as_dict (snd kv)) | _ \<Rightarrow> snd kv)))
               (not_none_items result))"
| "as_dict PNone = []"
| "as_dict (PBool b) = []"
| "as_dict (PInt n) = []"
| "as_dict (PFloat x) = []"
| "as_dict (PStr s) = []"
| "as_dict (PList xs) = []"
| "as_dict (PDict items) = []"
| "as_dict (PEnum tbl c) = []"
| "as_dict (PTime h mi) = []"
| "as_dict (PDateTime t) = []"
  by pat_completeness auto
termination
  apply (relation "measure size")
  apply simp
  subgoal for m fs kv m' fs' by (auto simp: model_dump_def dest: dump_fields_not_obj)
  subgoal for m fs rm rfs by (auto dest!: map_of_SomeD attr_size)
  subgoal for m fs x kv m2 fs2
    using dict_from_subset by (fastforce simp: not_none_items_def split: pyval.splits)
  done


section \<open>Decoding: \<^verbatim>\<open>decamelize_obj\<close>\<close>

text \<open>
  The module defines \<^verbatim>\<open>decamelize_obj\<close> twice; the second definition replaces the first and
  is the one \<^verbatim>\<open>from_dict\<close> calls. It recurses into every dict, list and instance, and is
  only entered with one of these. The argument \<open>ignore_keys\<close> is the list behind the private
  attribute \<^verbatim>\<open>_ignore_keys\<close> of the class.
\<close>

definition is_container :: "pyval \<Rightarrow> bool" where
  "is_container v = (case v of PDict _ \<Rightarrow> True | PList _ \<Rightarrow> True | PObj _ _ \<Rightarrow> True | _ \<Rightarrow> False)"

lemma obj_count_dump:
  "obj_count (model_dump_value v) = 0"
  "obj_count_items (dump_fields fs) = 0"
  "obj_count_items (dump_items fs) = 0"
  "obj_count_list (dump_list xs) = 0"
  by (induction v and fs and fs and xs rule: model_dump_value_dump_fields_dump_items_dump_list.induct) simp_all

lemma obj_count_items_zero_iff: "obj_count_items items = 0 \<longleftrightarrow> (\<forall>kv \<in> set items. obj_count (snd kv) = 0)"
  by (induction items) auto

lemma obj_count_items_as_dict: "obj_count_items (as_dict v) = 0"
proof (induction v rule: as_dict.induct)
  case (1 m fs)
  let ?enc = "\<lambda>kv. (camelize (fst kv),
                   (case snd kv of
                      PObj m' fs' \<Rightarrow> PDict (as_dict (snd kv))
                    | PEnum tbl c \<Rightarrow> PInt c
                    | _ \<Rightarrow> snd kv))"
  let ?result = "not_none_items (dict_from (map ?enc (model_dump fs)))"
  have dumped: "\<forall>kv \<in> set (model_dump fs). obj_count (snd kv) = 0"
    using obj_count_dump(2)[of fs] by (simp add: obj_count_items_zero_iff model_dump_def)
  have "\<forall>kv \<in> set (map ?enc (model_dump fs)). obj_count (snd kv) = 0"
    using dumped by (auto split: pyval.splits)
  then have res: "\<forall>kv \<in> set ?result. obj_count (snd kv) = 0"
    using dict_from_subset by (fastforce simp: not_none_items_def)
  show ?case
  proof (cases "model_as_dict m")
    case BaseAsDict
    then show ?thesis using res by (simp add: obj_count_items_zero_iff)
  next
    case RRiotAsDict
    have upd: "\<And>v d. obj_count v = 0 \<Longrightarrow> \<forall>kv \<in> set d. obj_count (snd kv) = 0
        \<Longrightarrow> \<forall>kv \<in> set (AList.update ''r'' v d). obj_count (snd kv) = 0"
      subgoal for v d by (induction d) auto
      done
    show ?thesis
    proof (cases "map_of fs ''r''")
      case None
      then show ?thesis using res RRiotAsDict by (simp add: obj_count_items_zero_iff)
    next
      case (Some r)
      show ?thesis
      proof (cases r)
        case (PObj rm rfs)
        have "obj_count_items (as_dict (PObj rm rfs)) = 0"
          using "1.IH"(2)[OF refl RRiotAsDict] Some PObj by simp
        then show ?thesis
          using res RRiotAsDict Some PObj upd[of "PDict (as_dict (PObj rm rfs))" ?result]
          by (simp add: obj_count_items_zero_iff)
      qed (use res RRiotAsDict Some in \<open>simp_all add: obj_count_items_zero_iff\<close>)
    qed
  next
    case UserDataAsDict
    have "obj_count (case snd kv of PObj m' fs' \<Rightarrow> PDict (as_dict (snd kv)) | _ \<Rightarrow> snd kv) = 0"
      if "kv \<in> set (not_none_items ?result)" for kv
    proof -
      from that have "kv \<in> set ?result"
        by (simp add: not_none_items_def)
      with res have "obj_count (snd kv) = 0"
        by blast
      then show ?thesis by (cases "snd kv") simp_all
    qed
    then show ?thesis
      using UserDataAsDict by (simp add: obj_count_items_zero_iff)
  qed
qed simp_all

lemma obj_count_member: "kv \<in> set items \<Longrightarrow> obj_count (snd kv) \<le> obj_count_items items"
  by (induction items) auto

lemma obj_count_list_member: "x \<in> set xs \<Longrightarrow> obj_count x \<le> obj_count_list xs"
  by (induction xs) auto

lemma item_size: "kv \<in> set items \<Longrightarrow> size (snd kv) < size (PDict items)"
  by (induction items) auto

lemma elem_size: "x \<in> set xs \<Longrightarrow> size x < size (PList xs)"
  by (induction xs) auto

function decamelize_obj :: "string list \<Rightarrow> pyval \<Rightarrow> pyval" where
  "decamelize_obj ignore_keys (PObj m fs) = decamelize_obj ignore_keys (PDict (as_dict (PObj m fs)))"
| "decamelize_obj ignore_keys (PList xs) =
     PList (map (\<lambda>i. if is_container i then decamelize_obj ignore_keys i else i) xs)"
| "decamelize_obj ignore_keys (PDict items) =
     PDict (dict_from (map
        (\<lambda>ab. (if fst ab \<notin> set ignore_keys then decamelize (fst ab) else fst ab,
               if is_container (snd ab) then decamelize_obj ignore_keys (snd ab) else snd ab))
        items))"
| "decamelize_obj ignore_keys PNone = PNone"
| "decamelize_obj ignore_keys (PBool b) = PBool b"
| "decamelize_obj ignore_keys (PInt n) = PInt n"
| "decamelize_obj ignore_keys (PFloat x) = PFloat x"
| "decamelize_obj ignore_keys (PStr s) = PStr s"
| "decamelize_obj ignore_keys (PEnum tbl c) = PEnum tbl c"
| "decamelize_obj ignore_keys (PTime h mi) = PTime h mi"
| "decamelize_obj ignore_keys (PDateTime t) = PDateTime t"
  by pat_completeness auto
termination
proof (relation "measures [\<lambda>p. obj_count (snd p), \<lambda>p. size (snd p)]", goal_cases)
  case 1
  then show ?case by simp
next
  case (2 ignore_keys m fs)
  then show ?case using obj_count_items_as_dict[of "PObj m fs"] by simp
next
  case (3 ignore_keys xs x)
  then show ?case
    using obj_count_list_member[of x xs] elem_size[of x xs] by auto
next
  case (4 ignore_keys items x)
  then show ?case
    using obj_count_member[of x items] item_size[of x items] by auto
qed


section \<open>Derived fields\<close>

text \<open>
  Reading an attribute that the instance does not have raises \<^verbatim>\<open>AttributeError\<close>; pydantic
  refuses to set an attribute that is not a field with \<^verbatim>\<open>ValueError\<close>.
\<close>

definition attr :: "string \<Rightarrow> pyval \<Rightarrow> py_error + pyval" where
  "attr k self = (case self of PObj m fs \<Rightarrow> (case map_of fs k of None \<Rightarrow> Inl AttributeError | Some v \<Rightarrow> Inr v) | _ \<Rightarrow> Inl AttributeError)"

definition get_attr :: "string \<Rightarrow> attrs \<Rightarrow> py_error + pyval" where
  "get_attr k fs = (case map_of fs k of None \<Rightarrow> Inl AttributeError | Some v \<Rightarrow> Inr v)"

definition set_attr :: "string \<Rightarrow> pyval \<Rightarrow> attrs \<Rightarrow> py_error + attrs" where
  "set_attr k v fs = (case map_of fs k of None \<Rightarrow> Inl ValueError | Some _ \<Rightarrow> Inr (AList.update k v fs))"

definition then_do :: "py_error + 'a \<Rightarrow> ('a \<Rightarrow> py_error + 'b) \<Rightarrow> py_error + 'b" where
  "then_do r f = (case r of Inl e \<Rightarrow> Inl e | Inr x \<Rightarrow> f x)"

definition py_truthy :: "pyval \<Rightarrow> bool" where
  "py_truthy v =
     (case v of
        PNone \<Rightarrow> False
      | PBool b \<Rightarrow> b
      | PInt n \<Rightarrow> n \<noteq> 0
      | PFloat x \<Rightarrow> x \<noteq> 0
      | PStr s \<Rightarrow> s \<noteq> []
      | PList xs \<Rightarrow> xs \<noteq> []
      | PDict items \<Rightarrow> items \<noteq> []
      | PEnum tbl c \<Rightarrow> c \<noteq> 0
      | PTime h mi \<Rightarrow> True
      | PDateTime t \<Rightarrow> True
      | PObj m fs \<Rightarrow> True)"

definition as_int :: "pyval \<Rightarrow> int option" where
  "as_int v = (case v of PInt n \<Rightarrow> Some n | PBool b \<Rightarrow> Some (if b then 1 else 0) | _ \<Rightarrow> None)"

definition as_fraction :: "pyval \<Rightarrow> (int \<times> int) option" where
  "as_fraction v =
     (case v of
        PInt n \<Rightarrow> Some (n, 1)
      | PBool b \<Rightarrow> Some (if b then 1 else 0, 1)
      | PFloat x \<Rightarrow> Some (quotient_of x)
      | _ \<Rightarrow> None)"

text \<open>\<^verbatim>\<open>round(x, 1)\<close> on a float: the double nearest to \<open>x\<close> rounded to one decimal, ties to
  the even digit.\<close>

definition py_round1 :: "rat \<Rightarrow> py_error + rat" where
  "py_round1 x = nearest_double (round_half_even (x * 10)) 10"

text \<open>\<^verbatim>\<open>round(v / 1000000, 1) if v is not None else None\<close>\<close>

definition square_meter :: "pyval \<Rightarrow> py_error + pyval" where
  "square_meter v =
     (if v = PNone then Inr PNone
      else case as_fraction v of
             None \<Rightarrow> Inl TypeError
           | Some (n, d) \<Rightarrow>
               then_do (nearest_double n (d * 1000000))
                 (\<lambda>q. then_do (py_round1 q) (\<lambda>r. Inr (PFloat r))))"

text \<open>
  \<^verbatim>\<open>datetime.datetime.fromtimestamp(t).astimezone(timezone.utc) if t else None\<close>. The instant
  is kept as its number of seconds since the epoch; the local time zone of the host is taken to
  be UTC and \<^verbatim>\<open>time_t\<close> to have 64 bits. A number outside the range of \<^verbatim>\<open>time_t\<close>
  raises \<^verbatim>\<open>OverflowError\<close>; one whose year does not fit the \<^verbatim>\<open>int\<close> of the C library's
  \<^verbatim>\<open>localtime\<close> raises \<^verbatim>\<open>OSError\<close>; a time outside the years 1 to 9999 raises
  \<^verbatim>\<open>ValueError\<close>, and so does a time on the first day of the year 1, because
  \<^verbatim>\<open>fromtimestamp\<close> looks one day back to detect a repeated local hour.
\<close>

definition utc_datetime :: "pyval \<Rightarrow> py_error + pyval" where
  "utc_datetime v =
     (if \<not> py_truthy v then Inr PNone
      else case as_int v of
             None \<Rightarrow> Inl TypeError
           | Some t \<Rightarrow>
               if t < - (2 ^ 63) \<or> 2 ^ 63 \<le> t then Inl OverflowError
               else if t < - 67768040609740800 \<or> 67767976233532799 < t then Inl OSError
               else if t < - 62135510400 \<or> 253402300799 < t then Inl ValueError
               else Inr (PDateTime t))"

text \<open>
  \<^verbatim>\<open>datetime.time(hour=h, minute=m) if h is not None and m is not None else None\<close>
\<close>

definition time_of_day :: "pyval \<Rightarrow> pyval \<Rightarrow> py_error + pyval" where
  "time_of_day h mi =
     (if h \<noteq> PNone \<and> mi \<noteq> PNone
      then (case (as_int h, as_int mi) of
              (Some hh, Some mm) \<Rightarrow>
                if 0 \<le> hh \<and> hh \<le> 23 \<and> 0 \<le> mm \<and> mm \<le> 59 then Inr (PTime hh mm)
                else Inl ValueError
            | _ \<Rightarrow> Inl TypeError)
      else Inr PNone)"

text \<open>
  Modelled from the spec: the enumeration classes of \<^verbatim>\<open>roborock/code_mappings.py\<close> are not
  part of the sources. An enumeration is a table of symbolic names and integer codes; the name
  of a member is the name registered for its code, \<^verbatim>\<open>keys()\<close> is the list of the names in the
  order of the table, and \<^verbatim>\<open>as_dict()\<close> maps each name to its code.
\<close>

definition name_of_code :: "enum_table \<Rightarrow> int \<Rightarrow> string option" where
  "name_of_code tbl c = map_of (map (\<lambda>(n, c'). (c', n)) tbl) c"

definition enum_name :: "pyval \<Rightarrow> py_error + pyval" where
  "enum_name v =
     (case v of
        PEnum tbl c \<Rightarrow> (case name_of_code tbl c of None \<Rightarrow> Inl AttributeError | Some n \<Rightarrow> Inr (PStr n))
      | _ \<Rightarrow> Inl AttributeError)"

definition enum_keys :: "pyval \<Rightarrow> py_error + pyval" where
  "enum_keys v =
     (case v of
        PEnum tbl c \<Rightarrow> Inr (PList (map (\<lambda>(n, c'). PStr n) tbl))
      | _ \<Rightarrow> Inl AttributeError)"

definition enum_as_dict :: "pyval \<Rightarrow> py_error + (string \<times> int) list" where
  "enum_as_dict v =
     (case v of
        PEnum tbl c \<Rightarrow> Inr (dict_from tbl)
      | _ \<Rightarrow> Inl AttributeError)"

text \<open>\<^verbatim>\<open>self.dst = round(self.src / 1000000, 1) if self.src is not None else None\<close>\<close>

definition set_square_meter :: "string \<Rightarrow> string \<Rightarrow> attrs \<Rightarrow> py_error + attrs" where
  "set_square_meter src dst fs =
     then_do (get_attr src fs) (\<lambda>v. then_do (square_meter v) (\<lambda>w. set_attr dst w fs))"

text \<open>\<^verbatim>\<open>if self.src is not None: self.dst = self.src.name\<close>\<close>

definition set_enum_name :: "string \<Rightarrow> string \<Rightarrow> attrs \<Rightarrow> py_error + attrs" where
  "set_enum_name src dst fs =
     then_do (get_attr src fs)
       (\<lambda>v. if v \<noteq> PNone then then_do (enum_name v) (\<lambda>n. set_attr dst n fs) else Inr fs)"

definition set_fan_power_options :: "attrs \<Rightarrow> py_error + attrs" where
  "set_fan_power_options fs =
     then_do (get_attr ''fan_power'' fs)
       (\<lambda>v. if v \<noteq> PNone
            then then_do (enum_keys v) (\<lambda>ks. then_do (set_attr ''fan_power_options'' ks fs)
                   (\<lambda>fs1. then_do (enum_name v) (\<lambda>n. set_attr ''fan_power_name'' n fs1)))
            else Inr fs)"

definition Status_model_post_init :: "attrs \<Rightarrow> py_error + attrs" where
  "Status_model_post_init self =
     then_do (set_square_meter ''clean_area'' ''square_meter_clean_area'' self) (\<lambda>self.
     then_do (set_enum_name ''error_code'' ''error_code_name'' self) (\<lambda>self.
     then_do (set_enum_name ''state'' ''state_name'' self) (\<lambda>self.
     then_do (set_enum_name ''water_box_mode'' ''water_box_mode_name'' self) (\<lambda>self.
     then_do (set_fan_power_options self) (\<lambda>self.
     set_enum_name ''mop_mode'' ''mop_mode_name'' self)))))"

definition CleanSummary_model_post_init :: "attrs \<Rightarrow> py_error + attrs" where
  "CleanSummary_model_post_init self =
     set_square_meter ''clean_area'' ''square_meter_clean_area'' self"

definition set_utc_datetime :: "string \<Rightarrow> string \<Rightarrow> attrs \<Rightarrow> py_error + attrs" where
  "set_utc_datetime src dst fs =
     then_do (get_attr src fs) (\<lambda>v. then_do (utc_datetime v) (\<lambda>w. set_attr dst w fs))"

definition CleanRecord_model_post_init :: "attrs \<Rightarrow> py_error + attrs" where
  "CleanRecord_model_post_init self =
     then_do (set_square_meter ''area'' ''square_meter_area'' self) (\<lambda>self.
     then_do (set_utc_datetime ''begin'' ''begin_datetime'' self) (\<lambda>self.
     set_utc_datetime ''end'' ''end_datetime'' self))"

definition set_time_of_day :: "string \<Rightarrow> string \<Rightarrow> string \<Rightarrow> attrs \<Rightarrow> py_error + attrs" where
  "set_time_of_day hour minute dst fs =
     then_do (get_attr hour fs) (\<lambda>h.
       if h \<noteq> PNone
       then then_do (get_attr minute fs) (\<lambda>mi. then_do (time_of_day h mi) (\<lambda>w. set_attr dst w fs))
       else set_attr dst PNone fs)"

text \<open>The statements of \<^verbatim>\<open>RoborockBaseTimer.__init__\<close> after \<^verbatim>\<open>super().__init__(**data)\<close>.\<close>

definition RoborockBaseTimer_init :: "attrs \<Rightarrow> py_error + attrs" where
  "RoborockBaseTimer_init self =
     then_do (set_time_of_day ''start_hour'' ''start_minute'' ''start_time'' self) (\<lambda>self.
     set_time_of_day ''end_hour'' ''end_minute'' ''end_time'' self)"

text \<open>
  What pydantic runs when it has validated the fields of an instance: \<^verbatim>\<open>model_post_init\<close> if
  the class defines it, the rest of \<^verbatim>\<open>__init__\<close> if the class overrides it. It runs nothing
  else: a method called \<^verbatim>\<open>__post_init__\<close> is a hook of dataclasses, and no code calls it on a
  class derived from \<^verbatim>\<open>BaseModel\<close>.
\<close>

definition run_hook :: "hook \<Rightarrow> attrs \<Rightarrow> py_error + attrs" where
  "run_hook hk self =
     (case hk of
        NoHook \<Rightarrow> Inr self
      | StatusPostInit \<Rightarrow> Status_model_post_init self
      | CleanSummaryPostInit \<Rightarrow> CleanSummary_model_post_init self
      | CleanRecordPostInit \<Rightarrow> CleanRecord_model_post_init self
      | TimerInit \<Rightarrow> RoborockBaseTimer_init self)"

section \<open>Validation by pydantic\<close>

text \<open>
  \<^verbatim>\<open>model_validate\<close> reads each declared field from the dict under the field's name, takes the
  default of a field that the dict does not have, and ignores every other key. What it makes of
  a value for a field of type \<^verbatim>\<open>int\<close>, \<^verbatim>\<open>str\<close>, \<^verbatim>\<open>bool\<close>, \<^verbatim>\<open>float\<close>,
  \<^verbatim>\<open>datetime.time\<close> or \<^verbatim>\<open>datetime.datetime\<close> is pydantic's table of conversions; the table is
  the parameter \<open>lx\<close> of the model: \<open>lx s v\<close> is the value of type \<open>s\<close> made of \<open>v\<close>, or
  \<open>None\<close> where pydantic rejects \<open>v\<close>.

  The errors of the fields are gathered into one \<^verbatim>\<open>ValidationError\<close>, a subclass of
  \<^verbatim>\<open>ValueError\<close>; an exception of another class, raised by the hook of a nested instance, ends
  the validation at once. A \<^verbatim>\<open>ValueError\<close> raised by a hook becomes a validation error.
\<close>

type_synonym lax = "scalar \<Rightarrow> pyval \<Rightarrow> pyval option"

definition default_value :: "fdefault \<Rightarrow> py_error + pyval" where
  "default_value d =
     (case d of
        Required \<Rightarrow> Inl ValidationError
      | DefaultNone \<Rightarrow> Inr PNone
      | DefaultFactoryList \<Rightarrow> Inr (PList []))"

text \<open>
  Modelled from the spec: a value for an enumeration field is looked up as an integer code in
  the table of the field, and the lookup fails for a code that the table does not register.
\<close>

definition enum_code_of :: "lax \<Rightarrow> pyval \<Rightarrow> int option" where
  "enum_code_of lx v =
     (case v of
        PEnum tbl c \<Rightarrow> Some c
      | _ \<Rightarrow> (case lx SInt v of Some (PInt n) \<Rightarrow> Some n | _ \<Rightarrow> None))"

definition enum_lookup :: "lax \<Rightarrow> enum_table \<Rightarrow> pyval \<Rightarrow> py_error + pyval" where
  "enum_lookup lx tbl v =
     (case enum_code_of lx v of
        None \<Rightarrow> Inl ValidationError
      | Some c \<Rightarrow> if c \<in> snd ` set tbl then Inr (PEnum tbl c) else Inl ValidationError)"

fun collect :: "(py_error + 'a) list \<Rightarrow> py_error + 'a list" where
  "collect [] = Inr []"
| "collect (r # rs) =
     (case r of
        Inl e \<Rightarrow>
          if e = ValidationError
          then (case collect rs of Inl e' \<Rightarrow> Inl e' | Inr _ \<Rightarrow> Inl ValidationError)
          else Inl e
      | Inr v \<Rightarrow> (case collect rs of Inl e \<Rightarrow> Inl e | Inr vs \<Rightarrow> Inr (v # vs)))"

definition convert_err :: "py_error \<Rightarrow> py_error" where
  "convert_err e = (if e = ValueError then ValidationError else e)"

primrec validate :: "lax \<Rightarrow> ftype \<Rightarrow> pyval \<Rightarrow> py_error + pyval"
and validate_model :: "lax \<Rightarrow> model \<Rightarrow> attrs \<Rightarrow> py_error + pyval"
and validate_field :: "lax \<Rightarrow> field \<Rightarrow> attrs \<Rightarrow> py_error + (string \<times> pyval)"
where
  "validate lx TAny v = Inr v"
| "validate lx TNoneType v = (if v = PNone then Inr v else Inl ValidationError)"
| "validate lx (TScalar s) v = (case lx s v of None \<Rightarrow> Inl ValidationError | Some w \<Rightarrow> Inr w)"
| "validate lx TDict v = (case v of PDict items \<Rightarrow> Inr v | _ \<Rightarrow> Inl ValidationError)"
| "validate lx (TEnum tbl) v = enum_lookup lx tbl v"
| "validate lx (TList t) v =
     (case v of
        PList xs \<Rightarrow>
          (case collect (map (validate lx t) xs) of Inl e \<Rightarrow> Inl e | Inr ys \<Rightarrow> Inr (PList ys))
      | _ \<Rightarrow> Inl ValidationError)"
| "validate lx (TOptional t) v = (if v = PNone then Inr PNone else validate lx t v)"
| "validate lx (TModel m) v =
     (case v of
        PDict d \<Rightarrow> validate_model lx m d
      | PObj m' fs \<Rightarrow> if m' = m then Inr v else Inl ValidationError
      | _ \<Rightarrow> Inl ValidationError)"
| "validate_model lx (Model n fs ign hk ad) d =
     (case collect (map (\<lambda>f. validate_field lx f d) fs) of
        Inl e \<Rightarrow> Inl e
      | Inr vs \<Rightarrow>
          (case run_hook hk vs of
             Inl e \<Rightarrow> Inl (convert_err e)
           | Inr self \<Rightarrow> Inr (PObj (Model n fs ign hk ad) self)))"
| "validate_field lx (Field k t dflt) d =
     (case map_of d k of
        None \<Rightarrow> (case default_value dflt of Inl e \<Rightarrow> Inl e | Inr v \<Rightarrow> Inr (k, v))
      | Some v \<Rightarrow> (case validate lx t v of Inl e \<Rightarrow> Inl e | Inr w \<Rightarrow> Inr (k, w)))"

definition validate_fields :: "lax \<Rightarrow> field list \<Rightarrow> attrs \<Rightarrow> py_error + attrs" where
  "validate_fields lx fs d = collect (map (\<lambda>f. validate_field lx f d) fs)"

definition model_validate :: "lax \<Rightarrow> model \<Rightarrow> pyval \<Rightarrow> py_error + pyval" where
  "model_validate lx cls obj = validate lx (TModel cls) obj"

text \<open>
  \<^verbatim>\<open>cls(**kwargs)\<close>, the constructor called by the program itself. An exception of the
  statements that \<^verbatim>\<open>RoborockBaseTimer.__init__\<close> adds reaches the caller as it is.
\<close>

definition construct :: "lax \<Rightarrow> model \<Rightarrow> attrs \<Rightarrow> py_error + pyval" where
  "construct lx cls kwargs =
     (case validate_fields lx (model_fields cls) kwargs of
        Inl e \<Rightarrow> Inl e
      | Inr vs \<Rightarrow>
          (case run_hook (model_hook cls) vs of
             Inl e \<Rightarrow> Inl (if model_hook cls = TimerInit then e else convert_err e)
           | Inr self \<Rightarrow> Inr (PObj cls self)))"

section \<open>\<^verbatim>\<open>RoborockBase.from_dict\<close>\<close>

definition is_ValueError :: "py_error \<Rightarrow> bool" where
  "is_ValueError e = (e = ValueError \<or> e = ValidationError)"

definition from_dict :: "lax \<Rightarrow> model \<Rightarrow> pyval \<Rightarrow> py_error + pyval" where
  "from_dict lx cls data =
     (case data of
        PDict items \<Rightarrow>
          (let ignore_keys = model_ignore_keys cls;
               decamelized_data = decamelize_obj ignore_keys data
           in case model_validate lx cls decamelized_data of
                Inl err \<Rightarrow> if is_ValueError err then Inl (RoborockExceptionFrom err) else Inl err
              | Inr obj \<Rightarrow> Inr obj)
      | _ \<Rightarrow> construct lx cls [])"

text \<open>
  A part of pydantic's table of conversions, used where a concrete table is needed: a value of
  the type asked for is taken as it is, and a \<^verbatim>\<open>bool\<close> or a float without fraction is taken
  for an \<^verbatim>\<open>int\<close>, an \<^verbatim>\<open>int\<close> for a float. The other conversions of pydantic (a string of
  digits for an \<^verbatim>\<open>int\<close>, a number for a \<^verbatim>\<open>datetime\<close>, and so on) are left out: on such an
  input \<open>lax_plain\<close> refuses where pydantic converts. It is applied below only to values of the
  type asked for; the general statements hold for every table \<open>lx\<close>.
\<close>

definition lax_plain :: lax where
  "lax_plain s v =
     (case s of
        SInt \<Rightarrow>
          (case v of
             PInt n \<Rightarrow> Some (PInt n)
           | PBool b \<Rightarrow> Some (PInt (if b then 1 else 0))
           | PFloat x \<Rightarrow> if x = of_int \<lfloor>x\<rfloor> then Some (PInt \<lfloor>x\<rfloor>) else None
           | _ \<Rightarrow> None)
      | SStr \<Rightarrow> (case v of PStr t \<Rightarrow> Some (PStr t) | _ \<Rightarrow> None)
      | SBool \<Rightarrow> (case v of PBool b \<Rightarrow> Some (PBool b) | _ \<Rightarrow> None)
      | SFloat \<Rightarrow>
          (case v of
             PFloat x \<Rightarrow> Some (PFloat x)
           | PInt n \<Rightarrow> (case nearest_double n 1 of Inl e \<Rightarrow> None | Inr x \<Rightarrow> Some (PFloat x))
           | _ \<Rightarrow> None)
      | STime \<Rightarrow> (case v of PTime h mi \<Rightarrow> Some (PTime h mi) | _ \<Rightarrow> None)
      | SDateTime \<Rightarrow> (case v of PDateTime t \<Rightarrow> Some (PDateTime t) | _ \<Rightarrow> None))"

section \<open>The classes\<close>

text \<open>
  The enumeration classes come from \<^verbatim>\<open>roborock/code_mappings.py\<close> and the replacement times
  from \<^verbatim>\<open>roborock/const.py\<close>; neither module is part of the sources, so the tables and the
  constants are parameters of the classes and functions that use them.
\<close>

record code_mappings =
  RoborockCategory :: enum_table
  RoborockStateCode :: enum_table
  RoborockErrorCode :: enum_table
  RoborockInCleaning :: enum_table
  RoborockFanPowerCode :: enum_table
  RoborockMopIntensityCode :: enum_table
  RoborockDockTypeCode :: enum_table
  RoborockMopModeCode :: enum_table
  RoborockDockErrorCode :: enum_table
  RoborockFanSpeedS6Pure :: enum_table
  RoborockMopIntensityS7 :: enum_table
  RoborockMopModeS7 :: enum_table
  RoborockMopIntensityS5Max :: enum_table
  RoborockFanSpeedQ7Max :: enum_table
  RoborockMopIntensityV2 :: enum_table
  RoborockFanSpeedS7MaxV :: enum_table
  RoborockMopIntensityS6MaxV :: enum_table
  RoborockFanSpeedS7 :: enum_table
  RoborockMopModeS8ProUltra :: enum_table
  RoborockFanSpeedP10 :: enum_table
  RoborockMopIntensityP10 :: enum_table
  RoborockFanSpeedS8MaxVUltra :: enum_table
  RoborockMopIntensityS8MaxVUltra :: enum_table
  RoborockMopModeS8MaxVUltra :: enum_table
  RoborockStartType :: enum_table
  RoborockCleanType :: enum_table
  RoborockFinishReason :: enum_table
  RoborockDockDustCollectionModeCode :: enum_table
  RoborockDockWashTowelModeCode :: enum_table

record replace_times =
  MAIN_BRUSH_REPLACE_TIME :: int
  SIDE_BRUSH_REPLACE_TIME :: int
  FILTER_REPLACE_TIME :: int
  SENSOR_DIRTY_REPLACE_TIME :: int
  STRAINER_REPLACE_TIME :: int
  DUST_COLLECTION_REPLACE_TIME :: int
  CLEANING_BRUSH_REPLACE_TIME :: int
  MOP_ROLLER_REPLACE_TIME :: int

text \<open>
  A subclass has the fields of its base in their order; a field it declares again takes the
  place of the inherited one, a new field comes last. The private attribute and the methods
  are inherited.
\<close>

definition override_field :: "field \<Rightarrow> field list \<Rightarrow> field list" where
  "override_field f fs =
     (if field_name f \<in> set (map field_name fs)
      then map (\<lambda>g. if field_name g = field_name f then f else g) fs
      else fs @ [f])"

definition subclass_of :: "string \<Rightarrow> model \<Rightarrow> field list \<Rightarrow> model" where
  "subclass_of name base fs =
     Model name (foldl (\<lambda>acc f. override_field f acc) (model_fields base) fs)
       (model_ignore_keys base) (model_hook base) (model_as_dict base)"

definition RoborockBaseTimer :: model where
  "RoborockBaseTimer =
     Model ''RoborockBaseTimer''
       [Field ''start_hour'' (TOptional (TScalar SInt)) DefaultNone,
        Field ''start_minute'' (TOptional (TScalar SInt)) DefaultNone,
        Field ''end_hour'' (TOptional (TScalar SInt)) DefaultNone,
        Field ''end_minute'' (TOptional (TScalar SInt)) DefaultNone,
        Field ''enabled'' (TOptional (TScalar SInt)) DefaultNone,
        Field ''start_time'' (TOptional (TScalar STime)) DefaultNone,
        Field ''end_time'' (TOptional (TScalar STime)) DefaultNone]
       [] TimerInit BaseAsDict"

definition DnDTimer :: model where
  "DnDTimer =
     subclass_of ''DnDTimer'' RoborockBaseTimer
       []"

definition ValleyElectricityTimer :: model where
  "ValleyElectricityTimer =
     subclass_of ''ValleyElectricityTimer'' RoborockBaseTimer
       []"

definition Reference :: model where
  "Reference =
     Model ''Reference''
       [Field ''r'' (TOptional (TScalar SStr)) DefaultNone,
        Field ''a'' (TOptional (TScalar SStr)) DefaultNone,
        Field ''m'' (TOptional (TScalar SStr)) DefaultNone,
        Field ''l'' (TOptional (TScalar SStr)) DefaultNone]
       [] NoHook BaseAsDict"

definition RRiot :: model where
  "RRiot =
     Model ''RRiot''
       [Field ''u'' (TScalar SStr) Required,
        Field ''s'' (TScalar SStr) Required,
        Field ''h'' (TScalar SStr) Required,
        Field ''k'' (TScalar SStr) Required,
        Field ''r'' (TModel Reference) Required]
       [] NoHook RRiotAsDict"

definition UserData :: model where
  "UserData =
     Model ''UserData''
       [Field ''uid'' (TOptional (TScalar SInt)) DefaultNone,
        Field ''tokentype'' (TOptional (TScalar SStr)) DefaultNone,
        Field ''token'' (TOptional (TScalar SStr)) DefaultNone,
        Field ''rruid'' (TOptional (TScalar SStr)) DefaultNone,
        Field ''region'' (TOptional (TScalar SStr)) DefaultNone,
        Field ''countrycode'' (TOptional (TScalar SStr)) DefaultNone,
        Field ''country'' (TOptional (TScalar SStr)) DefaultNone,
        Field ''nickname'' (TOptional (TScalar SStr)) DefaultNone,
        Field ''rriot'' (TOptional (TModel RRiot)) DefaultNone,
        Field ''tuya_device_state'' (TOptional (TScalar SInt)) DefaultNone,
        Field ''avatarurl'' (TOptional (TScalar SStr)) DefaultNone]
       [] NoHook UserDataAsDict"

definition HomeDataProductSchema :: model where
  "HomeDataProductSchema =
     Model ''HomeDataProductSchema''
       [Field ''id'' (TOptional TAny) DefaultNone,
        Field ''name'' (TOptional TAny) DefaultNone,
        Field ''code'' (TOptional TAny) DefaultNone,
        Field ''mode'' (TOptional TAny) DefaultNone,
        Field ''type'' (TOptional TAny) DefaultNone,
        Field ''product_property'' (TOptional TAny) DefaultNone,
        Field ''desc'' (TOptional TAny) DefaultNone]
       [] NoHook BaseAsDict"

definition HomeDataProduct :: "code_mappings \<Rightarrow> model" where
  "HomeDataProduct cm =
     Model ''HomeDataProduct''
       [Field ''id'' (TScalar SStr) Required,
        Field ''name'' (TScalar SStr) Required,
        Field ''model'' (TScalar SStr) Required,
        Field ''category'' (TEnum (RoborockCategory cm)) Required,
        Field ''code'' (TOptional (TScalar SStr)) DefaultNone,
        Field ''iconurl'' (TOptional (TScalar SStr)) DefaultNone,
        Field ''attribute'' (TOptional TAny) DefaultNone,
        Field ''capability'' (TOptional (TScalar SInt)) DefaultNone,
        Field ''schema'' (TOptional (TList (TModel HomeDataProductSchema))) DefaultNone]
       [] NoHook BaseAsDict"

definition DeviceFeatures_model :: model where
  "DeviceFeatures_model =
     Model ''DeviceFeatures''
       [Field ''map_carpet_add_supported'' (TScalar SBool) Required,
        Field ''show_clean_finish_reason_supported'' (TScalar SBool) Required,
        Field ''resegment_supported'' (TScalar SBool) Required,
        Field ''video_monitor_supported'' (TScalar SBool) Required,
        Field ''any_state_transit_goto_supported'' (TScalar SBool) Required,
        Field ''fw_filter_obstacle_supported'' (TScalar SBool) Required,
        Field ''video_setting_supported'' (TScalar SBool) Required,
        Field ''ignore_unknown_map_object_supported'' (TScalar SBool) Required,
        Field ''set_child_supported'' (TScalar SBool) Required,
        Field ''carpet_supported'' (TScalar SBool) Required,
        Field ''mop_path_supported'' (TScalar SBool) Required,
        Field ''multi_map_segment_timer_supported'' (TScalar SBool) Required,
        Field ''custom_water_box_distance_supported'' (TScalar SBool) Required,
        Field ''wash_then_charge_cmd_supported'' (TScalar SBool) Required,
        Field ''room_name_supported'' (TScalar SBool) Required,
        Field ''current_map_restore_enabled'' (TScalar SBool) Required,
        Field ''photo_upload_supported'' (TScalar SBool) Required,
        Field ''shake_mop_set_supported'' (TScalar SBool) Required,
        Field ''map_beautify_internal_debug_supported'' (TScalar SBool) Required,
        Field ''new_data_for_clean_history'' (TScalar SBool) Required,
        Field ''new_data_for_clean_history_detail'' (TScalar SBool) Required,
        Field ''flow_led_setting_supported'' (TScalar SBool) Required,
        Field ''dust_collection_setting_supported'' (TScalar SBool) Required,
        Field ''rpc_retry_supported'' (TScalar SBool) Required,
        Field ''avoid_collision_supported'' (TScalar SBool) Required,
        Field ''support_set_switch_map_mode'' (TScalar SBool) Required,
        Field ''support_smart_scene'' (TScalar SBool) Required,
        Field ''support_floor_edit'' (TScalar SBool) Required,
        Field ''support_furniture'' (TScalar SBool) Required,
        Field ''support_room_tag'' (TScalar SBool) Required,
        Field ''support_quick_map_builder'' (TScalar SBool) Required,
        Field ''support_smart_global_clean_with_custom_mode'' (TScalar SBool) Required,
        Field ''record_allowed'' (TScalar SBool) Required,
        Field ''careful_slow_map_supported'' (TScalar SBool) Required,
        Field ''egg_mode_supported'' (TScalar SBool) Required,
        Field ''unsave_map_reason_supported'' (TScalar SBool) Required,
        Field ''carpet_show_on_map'' (TScalar SBool) Required,
        Field ''supported_valley_electricity'' (TScalar SBool) Required,
        Field ''drying_supported'' (TScalar SBool) Required,
        Field ''download_test_voice_supported'' (TScalar SBool) Required,
        Field ''support_backup_map'' (TScalar SBool) Required,
        Field ''support_custom_mode_in_cleaning'' (TScalar SBool) Required,
        Field ''support_remote_control_in_call'' (TScalar SBool) Required,
        Field ''support_set_volume_in_call'' (TScalar SBool) Required,
        Field ''support_clean_estimate'' (TScalar SBool) Required,
        Field ''support_custom_dnd'' (TScalar SBool) Required,
        Field ''carpet_deep_clean_supported'' (TScalar SBool) Required,
        Field ''stuck_zone_supported'' (TScalar SBool) Required,
        Field ''custom_door_sill_supported'' (TScalar SBool) Required,
        Field ''clean_route_fast_mode_supported'' (TScalar SBool) Required,
        Field ''cliff_zone_supported'' (TScalar SBool) Required,
        Field ''smart_door_sill_supported'' (TScalar SBool) Required,
        Field ''support_floor_direction'' (TScalar SBool) Required,
        Field ''wifi_manage_supported'' (TScalar SBool) Required,
        Field ''back_charge_auto_wash_supported'' (TScalar SBool) Required,
        Field ''support_incremental_map'' (TScalar SBool) Required,
        Field ''offline_map_supported'' (TScalar SBool) Required]
       [] NoHook BaseAsDict"

definition HomeDataDevice :: model where
  "HomeDataDevice =
     Model ''HomeDataDevice''
       [Field ''duid'' (TScalar SStr) Required,
        Field ''name'' (TScalar SStr) Required,
        Field ''local_key'' (TScalar SStr) Required,
        Field ''fv'' (TScalar SStr) Required,
        Field ''product_id'' (TScalar SStr) Required,
        Field ''attribute'' (TOptional TAny) DefaultNone,
        Field ''active_time'' (TOptional (TScalar SInt)) DefaultNone,
        Field ''runtime_env'' (TOptional TAny) DefaultNone,
        Field ''time_zone_id'' (TOptional (TScalar SStr)) DefaultNone,
        Field ''icon_url'' (TOptional (TScalar SStr)) DefaultNone,
        Field ''lon'' (TOptional TAny) DefaultNone,
        Field ''lat'' (TOptional TAny) DefaultNone,
        Field ''share'' (TOptional TAny) DefaultNone,
        Field ''share_time'' (TOptional TAny) DefaultNone,
        Field ''online'' (TOptional (TScalar SBool)) DefaultNone,
        Field ''pv'' (TOptional (TScalar SStr)) DefaultNone,
        Field ''room_id'' (TOptional TAny) DefaultNone,
        Field ''tuya_uuid'' (TOptional TAny) DefaultNone,
        Field ''tuya_migrated'' (TOptional (TScalar SBool)) DefaultNone,
        Field ''extra'' (TOptional TAny) DefaultNone,
        Field ''sn'' (TOptional (TScalar SStr)) DefaultNone,
        Field ''feature_set'' (TOptional (TScalar SStr)) DefaultNone,
        Field ''new_feature_set'' (TOptional (TScalar SStr)) DefaultNone,
        Field ''device_status'' (TOptional TDict) DefaultNone,
        Field ''silent_ota_switch'' (TOptional (TScalar SBool)) DefaultNone,
        Field ''setting'' (TOptional TAny) DefaultNone,
        Field ''f'' (TOptional (TScalar SBool)) DefaultNone,
        Field ''device_features'' (TOptional (TModel DeviceFeatures_model)) DefaultNone]
       [] NoHook BaseAsDict"

definition HomeDataRoom :: model where
  "HomeDataRoom =
     Model ''HomeDataRoom''
       [Field ''id'' (TScalar SInt) Required,
        Field ''name'' (TScalar SStr) Required]
       [] NoHook BaseAsDict"

definition HomeData :: "code_mappings \<Rightarrow> model" where
  "HomeData cm =
     Model ''HomeData''
       [Field ''id'' (TScalar SInt) Required,
        Field ''name'' (TScalar SStr) Required,
        Field ''products'' (TList (TModel (HomeDataProduct cm))) DefaultFactoryList,
        Field ''devices'' (TList (TModel HomeDataDevice)) DefaultFactoryList,
        Field ''received_devices'' (TList (TModel HomeDataDevice)) DefaultFactoryList,
        Field ''lon'' (TOptional TAny) DefaultNone,
        Field ''lat'' (TOptional TAny) DefaultNone,
        Field ''geo_name'' (TOptional TAny) DefaultNone,
        Field ''rooms'' (TList (TModel HomeDataRoom)) DefaultFactoryList]
       [] NoHook BaseAsDict"

definition Status :: "code_mappings \<Rightarrow> model" where
  "Status cm =
     Model ''Status''
       [Field ''msg_ver'' (TOptional (TScalar SInt)) DefaultNone,
        Field ''msg_seq'' (TOptional (TScalar SInt)) DefaultNone,
        Field ''state'' (TOptional (TEnum (RoborockStateCode cm))) DefaultNone,
        Field ''battery'' (TOptional (TScalar SInt)) DefaultNone,
        Field ''clean_time'' (TOptional (TScalar SInt)) DefaultNone,
        Field ''clean_area'' (TOptional (TScalar SInt)) DefaultNone,
        Field ''square_meter_clean_area'' (TOptional (TScalar SFloat)) DefaultNone,
        Field ''error_code'' (TOptional (TEnum (RoborockErrorCode cm))) DefaultNone,
        Field ''map_present'' (TOptional (TScalar SInt)) DefaultNone,
        Field ''in_cleaning'' (TOptional (TEnum (RoborockInCleaning cm))) DefaultNone,
        Field ''in_returning'' (TOptional (TScalar SInt)) DefaultNone,
        Field ''in_fresh_state'' (TOptional (TScalar SInt)) DefaultNone,
        Field ''lab_status'' (TOptional (TScalar SInt)) DefaultNone,
        Field ''water_box_status'' (TOptional (TScalar SInt)) DefaultNone,
        Field ''back_type'' (TOptional (TScalar SInt)) DefaultNone,
        Field ''wash_phase'' (TOptional (TScalar SInt)) DefaultNone,
        Field ''wash_ready'' (TOptional (TScalar SInt)) DefaultNone,
        Field ''fan_power'' (TOptional (TEnum (RoborockFanPowerCode cm))) DefaultNone,
        Field ''dnd_enabled'' (TOptional (TScalar SInt)) DefaultNone,
        Field ''map_status'' (TOptional (TScalar SInt)) DefaultNone,
        Field ''is_locating'' (TOptional (TScalar SInt)) DefaultNone,
        Field ''lock_status'' (TOptional (TScalar SInt)) DefaultNone,
        Field ''water_box_mode'' (TOptional (TEnum (RoborockMopIntensityCode cm))) DefaultNone,
        Field ''water_box_carriage_status'' (TOptional (TScalar SInt)) DefaultNone,
        Field ''mop_forbidden_enable'' (TOptional (TScalar SInt)) DefaultNone,
        Field ''camera_status'' (TOptional (TScalar SInt)) DefaultNone,
        Field ''is_exploring'' (TOptional (TScalar SInt)) DefaultNone,
        Field ''home_sec_status'' (TOptional (TScalar SInt)) DefaultNone,
        Field ''home_sec_enable_password'' (TOptional (TScalar SInt)) DefaultNone,
        Field ''adbumper_status'' (TOptional (TList (TScalar SInt))) DefaultNone,
        Field ''water_shortage_status'' (TOptional (TScalar SInt)) DefaultNone,
        Field ''dock_type'' (TOptional (TEnum (RoborockDockTypeCode cm))) DefaultNone,
        Field ''dust_collection_status'' (TOptional (TScalar SInt)) DefaultNone,
        Field ''auto_dust_collection'' (TOptional (TScalar SInt)) DefaultNone,
        Field ''avoid_count'' (TOptional (TScalar SInt)) DefaultNone,
        Field ''mop_mode'' (TOptional (TEnum (RoborockMopModeCode cm))) DefaultNone,
        Field ''debug_mode'' (TOptional (TScalar SInt)) DefaultNone,
        Field ''collision_avoid_status'' (TOptional (TScalar SInt)) DefaultNone,
        Field ''switch_map_mode'' (TOptional (TScalar SInt)) DefaultNone,
        Field ''dock_error_status'' (TOptional (TEnum (RoborockDockErrorCode cm))) DefaultNone,
        Field ''charge_status'' (TOptional (TScalar SInt)) DefaultNone,
        Field ''unsave_map_reason'' (TOptional (TScalar SInt)) DefaultNone,
        Field ''unsave_map_flag'' (TOptional (TScalar SInt)) DefaultNone,
        Field ''wash_status'' (TOptional (TScalar SInt)) DefaultNone,
        Field ''distance_off'' (TOptional (TScalar SInt)) DefaultNone,
        Field ''in_warmup'' (TOptional (TScalar SInt)) DefaultNone,
        Field ''dry_status'' (TOptional (TScalar SInt)) DefaultNone,
        Field ''rdt'' (TOptional (TScalar SInt)) DefaultNone,
        Field ''clean_percent'' (TOptional (TScalar SInt)) DefaultNone,
        Field ''rss'' (TOptional (TScalar SInt)) DefaultNone,
        Field ''dss'' (TOptional (TScalar SInt)) DefaultNone,
        Field ''common_status'' (TOptional (TScalar SInt)) DefaultNone,
        Field ''corner_clean_mode'' (TOptional (TScalar SInt)) DefaultNone,
        Field ''error_code_name'' (TOptional (TScalar SStr)) DefaultNone,
        Field ''state_name'' (TOptional (TScalar SStr)) DefaultNone,
        Field ''water_box_mode_name'' (TOptional (TScalar SStr)) DefaultNone,
        Field ''fan_power_options'' (TList (TScalar SStr)) DefaultFactoryList,
        Field ''fan_power_name'' (TOptional (TScalar SStr)) DefaultNone,
        Field ''mop_mode_name'' (TOptional (TScalar SStr)) DefaultNone]
       [] StatusPostInit BaseAsDict"

definition S4MaxStatus :: "code_mappings \<Rightarrow> model" where
  "S4MaxStatus cm =
     subclass_of ''S4MaxStatus'' (Status cm)
       [Field ''fan_power'' (TOptional (TEnum (RoborockFanSpeedS6Pure cm))) DefaultNone,
        Field ''water_box_mode'' (TOptional (TEnum (RoborockMopIntensityS7 cm))) DefaultNone,
        Field ''mop_mode'' (TOptional (TEnum (RoborockMopModeS7 cm))) DefaultNone]"

definition S5MaxStatus :: "code_mappings \<Rightarrow> model" where
  "S5MaxStatus cm =
     subclass_of ''S5MaxStatus'' (Status cm)
       [Field ''fan_power'' (TOptional (TEnum (RoborockFanSpeedS6Pure cm))) DefaultNone,
        Field ''water_box_mode'' (TOptional (TEnum (RoborockMopIntensityS5Max cm))) DefaultNone]"

definition Q7MaxStatus :: "code_mappings \<Rightarrow> model" where
  "Q7MaxStatus cm =
     subclass_of ''Q7MaxStatus'' (Status cm)
       [Field ''fan_power'' (TOptional (TEnum (RoborockFanSpeedQ7Max cm))) DefaultNone,
        Field ''water_box_mode'' (TOptional (TEnum (RoborockMopIntensityV2 cm))) DefaultNone]"

definition S6MaxVStatus :: "code_mappings \<Rightarrow> model" where
  "S6MaxVStatus cm =
     subclass_of ''S6MaxVStatus'' (Status cm)
       [Field ''fan_power'' (TOptional (TEnum (RoborockFanSpeedS7MaxV cm))) DefaultNone,
        Field ''water_box_mode'' (TOptional (TEnum (RoborockMopIntensityS6MaxV cm))) DefaultNone]"

definition S6PureStatus :: "code_mappings \<Rightarrow> model" where
  "S6PureStatus cm =
     subclass_of ''S6PureStatus'' (Status cm)
       [Field ''fan_power'' (TOptional (TEnum (RoborockFanSpeedS6Pure cm))) DefaultNone]"

definition S7MaxVStatus :: "code_mappings \<Rightarrow> model" where
  "S7MaxVStatus cm =
     subclass_of ''S7MaxVStatus'' (Status cm)
       [Field ''fan_power'' (TOptional (TEnum (RoborockFanSpeedS7MaxV cm))) DefaultNone,
        Field ''water_box_mode'' (TOptional (TEnum (RoborockMopIntensityS7 cm))) DefaultNone,
        Field ''mop_mode'' (TOptional (TEnum (RoborockMopModeS7 cm))) DefaultNone]"

definition S7Status :: "code_mappings \<Rightarrow> model" where
  "S7Status cm =
     subclass_of ''S7Status'' (Status cm)
       [Field ''fan_power'' (TOptional (TEnum (RoborockFanSpeedS7 cm))) DefaultNone,
        Field ''water_box_mode'' (TOptional (TEnum (RoborockMopIntensityS7 cm))) DefaultNone,
        Field ''mop_mode'' (TOptional (TEnum (RoborockMopModeS7 cm))) DefaultNone]"

definition S8ProUltraStatus :: "code_mappings \<Rightarrow> model" where
  "S8ProUltraStatus cm =
     subclass_of ''S8ProUltraStatus'' (Status cm)
       [Field ''fan_power'' (TOptional (TEnum (RoborockFanSpeedS7MaxV cm))) DefaultNone,
        Field ''water_box_mode'' (TOptional (TEnum (RoborockMopIntensityS7 cm))) DefaultNone,
        Field ''mop_mode'' (TOptional (TEnum (RoborockMopModeS8ProUltra cm))) DefaultNone]"

definition S8Status :: "code_mappings \<Rightarrow> model" where
  "S8Status cm =
     subclass_of ''S8Status'' (Status cm)
       [Field ''fan_power'' (TOptional (TEnum (RoborockFanSpeedS7MaxV cm))) DefaultNone,
        Field ''water_box_mode'' (TOptional (TEnum (RoborockMopIntensityS7 cm))) DefaultNone,
        Field ''mop_mode'' (TOptional (TEnum (RoborockMopModeS8ProUltra cm))) DefaultNone]"

definition P10Status :: "code_mappings \<Rightarrow> model" where
  "P10Status cm =
     subclass_of ''P10Status'' (Status cm)
       [Field ''fan_power'' (TOptional (TEnum (RoborockFanSpeedP10 cm))) DefaultNone,
        Field ''water_box_mode'' (TOptional (TEnum (RoborockMopIntensityP10 cm))) DefaultNone,
        Field ''mop_mode'' (TOptional (TEnum (RoborockMopModeS8ProUltra cm))) DefaultNone]"

definition S8MaxvUltraStatus :: "code_mappings \<Rightarrow> model" where
  "S8MaxvUltraStatus cm =
     subclass_of ''S8MaxvUltraStatus'' (Status cm)
       [Field ''fan_power'' (TOptional (TEnum (RoborockFanSpeedS8MaxVUltra cm))) DefaultNone,
        Field ''water_box_mode'' (TOptional (TEnum (RoborockMopIntensityS8MaxVUltra cm))) DefaultNone,
        Field ''mop_mode'' (TOptional (TEnum (RoborockMopModeS8MaxVUltra cm))) DefaultNone]"

definition CleanSummary :: model where
  "CleanSummary =
     Model ''CleanSummary''
       [Field ''clean_time'' (TOptional (TScalar SInt)) DefaultNone,
        Field ''clean_area'' (TOptional (TScalar SInt)) DefaultNone,
        Field ''square_meter_clean_area'' (TOptional (TScalar SFloat)) DefaultNone,
        Field ''clean_count'' (TOptional (TScalar SInt)) DefaultNone,
        Field ''dust_collection_count'' (TOptional (TScalar SInt)) DefaultNone,
        Field ''records'' (TOptional (TList (TScalar SInt))) DefaultNone,
        Field ''last_clean_t'' (TOptional (TScalar SInt)) DefaultNone]
       [] CleanSummaryPostInit BaseAsDict"

definition CleanRecord :: "code_mappings \<Rightarrow> model" where
  "CleanRecord cm =
     Model ''CleanRecord''
       [Field ''begin'' (TOptional (TScalar SInt)) DefaultNone,
        Field ''begin_datetime'' (TOptional (TScalar SDateTime)) DefaultNone,
        Field ''end'' (TOptional (TScalar SInt)) DefaultNone,
        Field ''end_datetime'' (TOptional (TScalar SDateTime)) DefaultNone,
        Field ''duration'' (TOptional (TScalar SInt)) DefaultNone,
        Field ''area'' (TOptional (TScalar SInt)) DefaultNone,
        Field ''square_meter_area'' (TOptional (TScalar SFloat)) DefaultNone,
        Field ''error'' (TOptional (TScalar SInt)) DefaultNone,
        Field ''complete'' (TOptional (TScalar SInt)) DefaultNone,
        Field ''start_type'' (TOptional (TEnum (RoborockStartType cm))) DefaultNone,
        Field ''clean_type'' (TOptional (TEnum (RoborockCleanType cm))) DefaultNone,
        Field ''finish_reason'' (TOptional (TEnum (RoborockFinishReason cm))) DefaultNone,
        Field ''dust_collection_status'' (TOptional (TScalar SInt)) DefaultNone,
        Field ''avoid_count'' (TOptional (TScalar SInt)) DefaultNone,
        Field ''wash_count'' (TOptional (TScalar SInt)) DefaultNone,
        Field ''map_flag'' (TOptional (TScalar SInt)) DefaultNone]
       [] CleanRecordPostInit BaseAsDict"

definition Consumable :: model where
  "Consumable =
     Model ''Consumable''
       [Field ''main_brush_work_time'' (TOptional (TScalar SInt)) DefaultNone,
        Field ''side_brush_work_time'' (TOptional (TScalar SInt)) DefaultNone,
        Field ''filter_work_time'' (TOptional (TScalar SInt)) DefaultNone,
        Field ''filter_element_work_time'' (TOptional (TScalar SInt)) DefaultNone,
        Field ''sensor_dirty_time'' (TOptional (TScalar SInt)) DefaultNone,
        Field ''strainer_work_times'' (TOptional (TScalar SInt)) DefaultNone,
        Field ''dust_collection_work_times'' (TOptional (TScalar SInt)) DefaultNone,
        Field ''cleaning_brush_work_times'' (TOptional (TScalar SInt)) DefaultNone,
        Field ''moproller_work_time'' (TOptional (TScalar SInt)) DefaultNone,
        Field ''main_brush_time_left'' (TOptional (TScalar SInt)) DefaultNone,
        Field ''side_brush_time_left'' (TOptional (TScalar SInt)) DefaultNone,
        Field ''filter_time_left'' (TOptional (TScalar SInt)) DefaultNone,
        Field ''sensor_time_left'' (TOptional (TScalar SInt)) DefaultNone,
        Field ''strainer_time_left'' (TOptional (TScalar SInt)) DefaultNone,
        Field ''dust_collection_time_left'' (TOptional (TScalar SInt)) DefaultNone,
        Field ''cleaning_brush_time_left'' (TOptional (TScalar SInt)) DefaultNone,
        Field ''mop_roller_time_left'' (TOptional (TScalar SInt)) DefaultNone]
       [] NoHook BaseAsDict"

definition MultiMapsListMapInfoBakMaps :: model where
  "MultiMapsListMapInfoBakMaps =
     Model ''MultiMapsListMapInfoBakMaps''
       [Field ''mapflag'' (TOptional TAny) DefaultNone,
        Field ''add_time'' (TOptional TAny) DefaultNone]
       [] NoHook BaseAsDict"

definition MultiMapsListMapInfo :: model where
  "MultiMapsListMapInfo =
     Model ''MultiMapsListMapInfo''
       [Field ''mapFlag'' (TScalar SInt) Required,
        Field ''name'' (TScalar SStr) Required,
        Field ''add_time'' (TOptional TAny) DefaultNone,
        Field ''length'' (TOptional TAny) DefaultNone,
        Field ''bak_maps'' (TOptional (TList (TModel MultiMapsListMapInfoBakMaps))) DefaultNone]
       [''mapFlag''] NoHook BaseAsDict"

definition MultiMapsList :: model where
  "MultiMapsList =
     Model ''MultiMapsList''
       [Field ''max_multi_map'' (TOptional (TScalar SInt)) DefaultNone,
        Field ''max_bak_map'' (TOptional (TScalar SInt)) DefaultNone,
        Field ''multi_map_count'' (TOptional (TScalar SInt)) DefaultNone,
        Field ''map_info'' (TOptional (TList (TModel MultiMapsListMapInfo))) DefaultNone]
       [''mapFlag''] NoHook BaseAsDict"

definition DustCollectionMode :: "code_mappings \<Rightarrow> model" where
  "DustCollectionMode cm =
     Model ''DustCollectionMode''
       [Field ''mode'' (TOptional (TEnum (RoborockDockDustCollectionModeCode cm))) DefaultNone]
       [] NoHook BaseAsDict"

definition WashTowelMode :: "code_mappings \<Rightarrow> model" where
  "WashTowelMode cm =
     Model ''WashTowelMode''
       [Field ''wash_mode'' (TOptional (TEnum (RoborockDockWashTowelModeCode cm))) DefaultNone]
       [] NoHook BaseAsDict"


definition DyadOtaNfo :: model where
  "DyadOtaNfo =
     Model ''DyadOtaNfo''
       [Field ''mqttOtaData'' (TDict) Required]
       [] NoHook BaseAsDict"

text \<open>
  Tables to evaluate the classes with. They stand for the tables of the absent module and are
  not taken from it; no general statement depends on them.
\<close>

definition example_tables :: code_mappings where
  "example_tables =
     \<lparr>RoborockCategory = [(''zero'', 0), (''one'', 1), (''two'', 2)],
      RoborockStateCode = [(''starting'', 1), (''charger_disconnected'', 2), (''idle'', 3), (''cleaning'', 5), (''charging'', 8)],
      RoborockErrorCode = [(''none'', 0), (''lidar_blocked'', 1), (''bumper_stuck'', 2)],
      RoborockInCleaning = [(''zero'', 0), (''one'', 1), (''two'', 2)],
      RoborockFanPowerCode = [(''quiet'', 101), (''balanced'', 102), (''turbo'', 103), (''max'', 104)],
      RoborockMopIntensityCode = [(''off'', 200), (''mild'', 201), (''moderate'', 202), (''intense'', 203)],
      RoborockDockTypeCode = [(''zero'', 0), (''one'', 1), (''two'', 2)],
      RoborockMopModeCode = [(''standard'', 300), (''deep'', 301)],
      RoborockDockErrorCode = [(''zero'', 0), (''one'', 1), (''two'', 2)],
      RoborockFanSpeedS6Pure = [(''quiet'', 101), (''balanced'', 102), (''turbo'', 103), (''max'', 104)],
      RoborockMopIntensityS7 = [(''off'', 200), (''mild'', 201), (''moderate'', 202), (''intense'', 203)],
      RoborockMopModeS7 = [(''standard'', 300), (''deep'', 301)],
      RoborockMopIntensityS5Max = [(''off'', 200), (''mild'', 201), (''moderate'', 202), (''intense'', 203)],
      RoborockFanSpeedQ7Max = [(''quiet'', 101), (''balanced'', 102), (''turbo'', 103), (''max'', 104)],
      RoborockMopIntensityV2 = [(''off'', 200), (''mild'', 201), (''moderate'', 202), (''intense'', 203)],
      RoborockFanSpeedS7MaxV = [(''quiet'', 101), (''balanced'', 102), (''turbo'', 103), (''max'', 104)],
      RoborockMopIntensityS6MaxV = [(''off'', 200), (''mild'', 201), (''moderate'', 202), (''intense'', 203)],
      RoborockFanSpeedS7 = [(''quiet'', 101), (''balanced'', 102), (''turbo'', 103), (''max'', 104)],
      RoborockMopModeS8ProUltra = [(''standard'', 300), (''deep'', 301)],
      RoborockFanSpeedP10 = [(''quiet'', 101), (''balanced'', 102), (''turbo'', 103), (''max'', 104)],
      RoborockMopIntensityP10 = [(''off'', 200), (''mild'', 201), (''moderate'', 202), (''intense'', 203)],
      RoborockFanSpeedS8MaxVUltra = [(''quiet'', 101), (''balanced'', 102), (''turbo'', 103), (''max'', 104)],
      RoborockMopIntensityS8MaxVUltra = [(''off'', 200), (''mild'', 201), (''moderate'', 202), (''intense'', 203)],
      RoborockMopModeS8MaxVUltra = [(''standard'', 300), (''deep'', 301)],
      RoborockStartType = [(''zero'', 0), (''one'', 1), (''two'', 2)],
      RoborockCleanType = [(''zero'', 0), (''one'', 1), (''two'', 2)],
      RoborockFinishReason = [(''zero'', 0), (''one'', 1), (''two'', 2)],
      RoborockDockDustCollectionModeCode = [(''zero'', 0), (''one'', 1), (''two'', 2)],
      RoborockDockWashTowelModeCode = [(''zero'', 0), (''one'', 1), (''two'', 2)]\<rparr>"


section \<open>Methods of the classes\<close>

text \<open>\<^verbatim>\<open>d.get(k)\<close> on the dict of an enumeration: the code, or \<^verbatim>\<open>None\<close>.\<close>

definition code_or_none :: "(string \<times> int) list \<Rightarrow> string \<Rightarrow> pyval" where
  "code_or_none d k = (case map_of d k of None \<Rightarrow> PNone | Some c \<Rightarrow> PInt c)"

definition get_code :: "string \<Rightarrow> pyval \<Rightarrow> string \<Rightarrow> py_error + pyval" where
  "get_code field self name =
     (case self of
        PObj m fs \<Rightarrow>
          then_do (get_attr field fs)
            (\<lambda>v. if v = PNone then Inl RoborockException
                 else then_do (enum_as_dict v) (\<lambda>d. Inr (code_or_none d name)))
      | _ \<Rightarrow> Inl AttributeError)"

definition get_fan_speed_code :: "pyval \<Rightarrow> string \<Rightarrow> py_error + pyval" where
  "get_fan_speed_code self fan_speed = get_code ''fan_power'' self fan_speed"

definition get_mop_intensity_code :: "pyval \<Rightarrow> string \<Rightarrow> py_error + pyval" where
  "get_mop_intensity_code self mop_intensity = get_code ''water_box_mode'' self mop_intensity"

definition get_mop_mode_code :: "pyval \<Rightarrow> string \<Rightarrow> py_error + pyval" where
  "get_mop_mode_code self mop_mode = get_code ''mop_mode'' self mop_mode"

text \<open>
  \<^verbatim>\<open>Consumable.__post_init__\<close>, as the class body defines it. Each of its statements is
  \<^verbatim>\<open>self.dst = CONSTANT - self.src if self.src is not None else None\<close>.
\<close>

definition time_left :: "int \<Rightarrow> pyval \<Rightarrow> py_error + pyval" where
  "time_left replace_time v =
     (if v \<noteq> PNone
      then (case as_int v of
              Some n \<Rightarrow> Inr (PInt (replace_time - n))
            | None \<Rightarrow>
                (case v of
                   PFloat x \<Rightarrow>
                     then_do (nearest_double replace_time 1)
                       (\<lambda>r. case quotient_of (r - x) of
                              (n, d) \<Rightarrow> then_do (nearest_double n d) (\<lambda>y. Inr (PFloat y)))
                 | _ \<Rightarrow> Inl TypeError))
      else Inr PNone)"

definition set_time_left :: "int \<Rightarrow> string \<Rightarrow> string \<Rightarrow> attrs \<Rightarrow> py_error + attrs" where
  "set_time_left replace_time src dst fs =
     then_do (get_attr src fs) (\<lambda>v. then_do (time_left replace_time v) (\<lambda>w. set_attr dst w fs))"

definition Consumable_post_init :: "replace_times \<Rightarrow> attrs \<Rightarrow> py_error + attrs" where
  "Consumable_post_init rt self =
     then_do (set_time_left (MAIN_BRUSH_REPLACE_TIME rt) ''main_brush_work_time'' ''main_brush_time_left'' self) (\<lambda>self.
     then_do (set_time_left (SIDE_BRUSH_REPLACE_TIME rt) ''side_brush_work_time'' ''side_brush_time_left'' self) (\<lambda>self.
     then_do (set_time_left (FILTER_REPLACE_TIME rt) ''filter_work_time'' ''filter_time_left'' self) (\<lambda>self.
     then_do (set_time_left (SENSOR_DIRTY_REPLACE_TIME rt) ''sensor_dirty_time'' ''sensor_time_left'' self) (\<lambda>self.
     then_do (set_time_left (STRAINER_REPLACE_TIME rt) ''strainer_work_times'' ''strainer_time_left'' self) (\<lambda>self.
     then_do (set_time_left (DUST_COLLECTION_REPLACE_TIME rt) ''dust_collection_work_times'' ''dust_collection_time_left'' self) (\<lambda>self.
     then_do (set_time_left (CLEANING_BRUSH_REPLACE_TIME rt) ''cleaning_brush_work_times'' ''cleaning_brush_time_left'' self) (\<lambda>self.
     set_time_left (MOP_ROLLER_REPLACE_TIME rt) ''moproller_work_time'' ''mop_roller_time_left'' self)))))))"

section \<open>Notions of the specification\<close>

text \<open>
  The name transcoder with its exemption list, as \<^verbatim>\<open>decamelize_obj\<close> applies it to a key; a
  key of a payload is declared in a class if it is transcoded to the name of a field.
\<close>

definition to_domain :: "string list \<Rightarrow> string \<Rightarrow> string" where
  "to_domain ignore_keys a = (if a \<notin> set ignore_keys then decamelize a else a)"

definition field_names :: "model \<Rightarrow> string list" where
  "field_names cls = map field_name (model_fields cls)"


text \<open>The attributes that the construction hook of a class assigns: its derived fields.\<close>

definition hook_writes :: "hook \<Rightarrow> string list" where
  "hook_writes hk =
     (case hk of
        NoHook \<Rightarrow> []
      | StatusPostInit \<Rightarrow>
          [''square_meter_clean_area'', ''error_code_name'', ''state_name'', ''water_box_mode_name'',
           ''fan_power_options'', ''fan_power_name'', ''mop_mode_name'']
      | CleanSummaryPostInit \<Rightarrow> [''square_meter_clean_area'']
      | CleanRecordPostInit \<Rightarrow> [''square_meter_area'', ''begin_datetime'', ''end_datetime'']
      | TimerInit \<Rightarrow> [''start_time'', ''end_time''])"

text \<open>
  What it means that the derived fields of an instance agree with their source fields: a field
  derived by a function holds the function's value of the source (\<open>derived_from\<close>), a name
  field holds the name of the member in the enumeration field when that field is set
  (\<open>named_from\<close>), and a time of day holds the time built from hour and minute when both are
  present and \<^verbatim>\<open>None\<close> otherwise (\<open>time_from\<close>).
\<close>

definition derived_from :: "(pyval \<Rightarrow> py_error + pyval) \<Rightarrow> string \<Rightarrow> string \<Rightarrow> attrs \<Rightarrow> bool" where
  "derived_from f src dst fs = (then_do (get_attr src fs) f = get_attr dst fs)"

definition named_from :: "string \<Rightarrow> string \<Rightarrow> attrs \<Rightarrow> bool" where
  "named_from src dst fs =
     (case get_attr src fs of
        Inl e \<Rightarrow> False
      | Inr v \<Rightarrow> v = PNone \<or> get_attr dst fs = enum_name v)"

definition options_from :: "string \<Rightarrow> string \<Rightarrow> attrs \<Rightarrow> bool" where
  "options_from src dst fs =
     (case get_attr src fs of
        Inl e \<Rightarrow> False
      | Inr v \<Rightarrow> v = PNone \<or> get_attr dst fs = enum_keys v)"

definition time_from :: "string \<Rightarrow> string \<Rightarrow> string \<Rightarrow> attrs \<Rightarrow> bool" where
  "time_from hour minute dst fs =
     (case (get_attr hour fs, get_attr minute fs) of
        (Inr h, Inr mi) \<Rightarrow> time_of_day h mi = get_attr dst fs
      | (Inr h, Inl e) \<Rightarrow> h = PNone \<and> get_attr dst fs = Inr PNone
      | (Inl e, _) \<Rightarrow> False)"

definition derived_consistent :: "hook \<Rightarrow> attrs \<Rightarrow> bool" where
  "derived_consistent hk fs =
     (case hk of
        NoHook \<Rightarrow> True
      | StatusPostInit \<Rightarrow>
          derived_from square_meter ''clean_area'' ''square_meter_clean_area'' fs
          \<and> named_from ''error_code'' ''error_code_name'' fs
          \<and> named_from ''state'' ''state_name'' fs
          \<and> named_from ''water_box_mode'' ''water_box_mode_name'' fs
          \<and> options_from ''fan_power'' ''fan_power_options'' fs
          \<and> named_from ''fan_power'' ''fan_power_name'' fs
          \<and> named_from ''mop_mode'' ''mop_mode_name'' fs
      | CleanSummaryPostInit \<Rightarrow>
          derived_from square_meter ''clean_area'' ''square_meter_clean_area'' fs
      | CleanRecordPostInit \<Rightarrow>
          derived_from square_meter ''area'' ''square_meter_area'' fs
          \<and> derived_from utc_datetime ''begin'' ''begin_datetime'' fs
          \<and> derived_from utc_datetime ''end'' ''end_datetime'' fs
      | TimerInit \<Rightarrow>
          time_from ''start_hour'' ''start_minute'' ''start_time'' fs
          \<and> time_from ''end_hour'' ''end_minute'' ''end_time'' fs)"

text \<open>
  The default-constructed instance of a class holds the default of every field. The hook of a
  class leaves it alone if the fields it reads and assigns exist and default to \<^verbatim>\<open>None\<close>.
\<close>

definition is_dict :: "pyval \<Rightarrow> bool" where
  "is_dict v = (case v of PDict items \<Rightarrow> True | _ \<Rightarrow> False)"

definition default_attr :: "field \<Rightarrow> string \<times> pyval" where
  "default_attr f =
     (field_name f, case field_default f of DefaultFactoryList \<Rightarrow> PList [] | _ \<Rightarrow> PNone)"

definition default_attrs :: "model \<Rightarrow> attrs" where
  "default_attrs cls = map default_attr (model_fields cls)"

definition hook_uses :: "hook \<Rightarrow> string list" where
  "hook_uses hk =
     (case hk of
        NoHook \<Rightarrow> []
      | StatusPostInit \<Rightarrow>
          [''clean_area'', ''square_meter_clean_area'', ''error_code'', ''state'',
           ''water_box_mode'', ''fan_power'', ''mop_mode'']
      | CleanSummaryPostInit \<Rightarrow> [''clean_area'', ''square_meter_clean_area'']
      | CleanRecordPostInit \<Rightarrow>
          [''area'', ''square_meter_area'', ''begin'', ''begin_datetime'', ''end'', ''end_datetime'']
      | TimerInit \<Rightarrow> [''start_hour'', ''start_time'', ''end_hour'', ''end_time''])"

definition all_fields_default :: "model \<Rightarrow> bool" where
  "all_fields_default cls =
     (list_all (\<lambda>f. field_default f \<noteq> Required) (model_fields cls)
      \<and> list_all (\<lambda>k. map_of (default_attrs cls) k = Some PNone) (hook_uses (model_hook cls)))"

text \<open>A type is free of hooks if no class nested in it runs a hook at construction.\<close>

primrec hook_free :: "ftype \<Rightarrow> bool"
and hook_free_model :: "model \<Rightarrow> bool"
and hook_free_field :: "field \<Rightarrow> bool"
where
  "hook_free TAny = True"
| "hook_free TNoneType = True"
| "hook_free (TScalar s) = True"
| "hook_free TDict = True"
| "hook_free (TEnum tbl) = True"
| "hook_free (TList t) = hook_free t"
| "hook_free (TOptional t) = hook_free t"
| "hook_free (TModel m) = hook_free_model m"
| "hook_free_model (Model n fs ign hk ad) = (hk = NoHook \<and> list_all hook_free_field fs)"
| "hook_free_field (Field k t dflt) = hook_free t"

definition is_enum_field :: "enum_table \<Rightarrow> ftype \<Rightarrow> bool" where
  "is_enum_field tbl t = (t = TEnum tbl \<or> t = TOptional (TEnum tbl))"

text \<open>
  What a query for the code of a symbolic name has to answer, \<open>r\<close> being the outcome of the
  call: with the enumeration field \<open>k\<close> unset the call raises; with the field set to a member
  of the table it returns a code that the table registers for the name, or \<^verbatim>\<open>None\<close> for a
  name that the table does not have.
\<close>

definition code_query :: "enum_table \<Rightarrow> string \<Rightarrow> pyval \<Rightarrow> string \<Rightarrow> py_error + pyval \<Rightarrow> bool" where
  "code_query tbl k self name r =
     ((attr k self = Inr PNone \<and> r = Inl RoborockException)
      \<or> ((\<exists>c. attr k self = Inr (PEnum tbl c))
          \<and> (if name \<in> fst ` set tbl then \<exists>c. (name, c) \<in> set tbl \<and> r = Inr (PInt c)
              else r = Inr PNone)))"
















section \<open>Properties of the capability decoder\<close>

subsection \<open>Parsing strings of digits\<close>

lemma is_digit_cases: "is_digit c \<Longrightarrow> c = CHR ''0'' \<or> c = CHR ''1'' \<or> c = CHR ''2'' \<or> c = CHR ''3'' \<or> c = CHR ''4'' \<or> c = CHR ''5'' \<or> c = CHR ''6'' \<or> c = CHR ''7'' \<or> c = CHR ''8'' \<or> c = CHR ''9''"
  by (auto simp: is_digit_def)

lemma digit_val_digit:
  assumes "is_digit c" "10 \<le> b"
  shows "digit_val b c = Some (of_char c - 48)" "(of_char c :: nat) - 48 < 10" "48 \<le> (of_char c :: nat)"
  using is_digit_cases[OF assms(1)] assms(2) by (auto simp: digit_val_def)

lemma is_digit_not_special:
  assumes "is_digit c"
  shows "c \<noteq> CHR ''_''" "c \<noteq> CHR ''-''" "c \<noteq> CHR ''+''" "\<not> py_isspace c"
  using is_digit_cases[OF assms] by (auto simp: py_isspace_def)

lemma scan_digits_all_digits:
  "list_all is_digit s \<Longrightarrow> scan_digits 10 False acc s = Some (decimal_value_from acc s, [])"
proof (induction s arbitrary: acc)
  case Nil
  then show ?case by (simp add: decimal_value_from_def)
next
  case (Cons c cs)
  then have d: "is_digit c" and r: "list_all is_digit cs" by simp_all
  have "int (of_char c - 48 :: nat) = int (of_char c) - 48"
    using digit_val_digit(3)[OF d, of 10] by simp
  then show ?case
    using Cons.IH[OF r] digit_val_digit(1)[OF d, of 10] is_digit_not_special(1)[OF d]
    by (simp add: decimal_value_from_def)
qed

lemma scan_digits_hex_total:
  "list_all is_digit s \<Longrightarrow> \<exists>v. scan_digits 16 False acc s = Some (v, [])"
proof (induction s arbitrary: acc)
  case Nil
  then show ?case by simp
next
  case (Cons c cs)
  then have d: "is_digit c" and r: "list_all is_digit cs" by simp_all
  show ?case
    using Cons.IH[OF r] digit_val_digit(1)[OF d, of 16] is_digit_not_special(1)[OF d]
    by simp
qed

lemma count_digits_decimal: "list_all is_digit s \<Longrightarrow> count_digits s = length s"
  unfolding count_digits_def
  by (induction s) (simp_all add: is_digit_not_special(1))

lemma py_int_unsigned:
  assumes "dropWhile py_isspace s = s" and "strip_sign s = (False, s)"
    and "strip_prefix16 base s = c # cs" and "digit_val base c \<noteq> None"
    and "scan_digits base False 0 (c # cs) = Some (v, [])"
  shows "py_int base s =
           (if \<not> binary_base base \<and> int_max_str_digits < count_digits (c # cs)
            then Inl ValueError else Inr v)"
  unfolding py_int_def using assms by (auto simp: Let_def simp del: scan_digits.simps)

lemma py_int_decimal_cases:
  assumes "is_decimal s"
  shows "py_int 10 s =
           (if int_max_str_digits < length s then Inl ValueError else Inr (decimal_value s))"
proof -
  from assms obtain c cs where s: "s = c # cs" and d: "is_digit c" and all: "list_all is_digit s"
    by (cases s) (auto simp: is_decimal_def)
  have 1: "dropWhile py_isspace s = s"
    using is_digit_not_special(4)[OF d] by (simp add: s)
  have 2: "strip_sign s = (False, s)"
    using is_digit_not_special(2,3)[OF d] by (simp add: s strip_sign_def)
  have 3: "strip_prefix16 10 s = c # cs"
    by (simp add: s strip_prefix16_def split: list.splits)
  have 4: "digit_val 10 c \<noteq> None"
    using digit_val_digit(1)[OF d, of 10] by simp
  have 5: "scan_digits 10 False 0 (c # cs) = Some (decimal_value s, [])"
    using scan_digits_all_digits[OF all, of 0] by (simp only: s decimal_value_def)
  have 6: "count_digits (c # cs) = length s"
    using count_digits_decimal[OF all] by (simp only: s)
  show ?thesis
    by (simp only: py_int_unsigned[OF 1 2 3 4 5] 6) (simp add: binary_base_def)
qed

lemma py_int_decimal:
  assumes "is_decimal s" and "length s \<le> int_max_str_digits"
  shows "py_int 10 s = Inr (decimal_value s)"
  using assms(2) by (simp add: py_int_decimal_cases[OF assms(1)])

lemma py_int_decimal_limit:
  assumes "is_decimal s" and "int_max_str_digits < length s"
  shows "py_int 10 s = Inl ValueError"
  using assms(2) by (simp add: py_int_decimal_cases[OF assms(1)])

lemma last8_decimal: "is_decimal s \<Longrightarrow> is_decimal (last8 s)"
  by (cases s rule: rev_cases) (auto simp: is_decimal_def last8_def list_all_iff dest: in_set_dropD)

lemma py_int_hex_tail:
  assumes "is_decimal s"
  shows "\<exists>v. py_int 16 (''0x'' @ last8 s) = Inr v"
proof -
  from last8_decimal[OF assms] obtain c cs where s: "last8 s = c # cs" and d: "is_digit c"
      and all: "list_all is_digit (last8 s)"
    by (cases "last8 s") (auto simp: is_decimal_def)
  have 1: "dropWhile py_isspace (''0x'' @ last8 s) = ''0x'' @ last8 s"
    by (simp add: py_isspace_def)
  have 2: "strip_sign (''0x'' @ last8 s) = (False, ''0x'' @ last8 s)"
    by (simp add: strip_sign_def)
  have 3: "strip_prefix16 16 (''0x'' @ last8 s) = c # cs"
    using is_digit_not_special(1)[OF d] by (simp add: strip_prefix16_def s)
  have 4: "digit_val 16 c \<noteq> None"
    using digit_val_digit(1)[OF d, of 16] by simp
  obtain v where v: "scan_digits 16 False 0 (c # cs) = Some (v, [])"
    using scan_digits_hex_total[OF all] unfolding s by blast
  have "py_int 16 (''0x'' @ last8 s) = Inr v"
    by (simp only: py_int_unsigned[OF 1 2 3 4 v]) (simp add: binary_base_def)
  then show ?thesis by blast
qed


subsection \<open>Division by \<open>2 ^ 32\<close> through a double\<close>

lemma round_half_even_of_int: "round_half_even (of_int k) = k"
  by (simp add: round_half_even_def)

lemma bitlen_le_53: 
  assumes "0 < a" "a < 2 ^ 53"
  shows "bitlen a \<le> 53"
proof (rule ccontr)
  assume "\<not> bitlen a \<le> 53"
  then have "54 \<le> bitlen a" by simp
  then have "(53::nat) \<le> nat (bitlen a - 1)" by simp
  then have "(2::int) ^ 53 \<le> 2 ^ nat (bitlen a - 1)"
    by (rule power_increasing) simp
  also have "\<dots> \<le> a" using bitlen_bounds[OF assms(1)] by simp
  finally show False using assms(2) by simp
qed

lemma bitlen_2_32: "bitlen 4294967296 = 33"
  using bitlen_pow2[of 1 32] by (simp add: bitlen_def floorlog_def)

lemma floor_log2_quot_small:
  assumes "0 < a" "a < 2 ^ 53"
  shows "floor_log2_quot a 4294967296 \<le> 20"
  using bitlen_le_53[OF assms] by (simp add: floor_log2_quot_def Let_def bitlen_2_32)

lemma nearest_double_exact:
  assumes "0 < a" "a < 2 ^ 53"
  shows "nearest_double a 4294967296 = Inr (of_int a / 4294967296)"
proof -
  define e where "e = max (floor_log2_quot \<bar>a\<bar> \<bar>4294967296\<bar>) (- 1022)"
  define k where "k = nat (20 - e)"
  have e20: "e \<le> 20" using floor_log2_quot_small[OF assms] assms(1) by (simp add: e_def)
  have e52: "e - 52 = - int (k + 32)" using e20 by (simp add: k_def)
  have u: "(2::rat) powi (e - 52) = 1 / 2 ^ (k + 32)"
    by (simp only: e52 power_int_minus_divide power_int_of_nat)
  have p32: "(2::rat) ^ 32 = 4294967296" by simp
  have q: "rat_of_int \<bar>a\<bar> / rat_of_int \<bar>4294967296\<bar> / (2 powi (e - 52)) = of_int (a * 2 ^ k)"
    using assms(1) unfolding u power_add p32 by simp
  have r: "rat_of_int (a * 2 ^ k) * (2 powi (e - 52)) = of_int a / 4294967296"
    unfolding u power_add p32 by simp
  have "rat_of_int a < 2 ^ 53" using assms(2) by (metis of_int_less_iff of_int_numeral of_int_power)
  then have small: "\<not> (2::rat) powi 1024 \<le> of_int a / 4294967296"
    by simp
  have sg: "sgn a * sgn (4294967296::int) = 1" using assms(1) by simp
  have ne: "a \<noteq> 0" using assms(1) by simp
  show ?thesis
    unfolding nearest_double_def Let_def e_def[symmetric] q round_half_even_of_int r sg
    using ne small by simp
qed

lemma divided_exact:
  assumes "0 \<le> a" "a < 2 ^ 53"
  shows "new_feature_set_divided_of a = Inr (a div 2 ^ 32)"
proof (cases "a = 0")
  case True
  then show ?thesis
    by (simp add: new_feature_set_divided_of_def py_truediv_def nearest_double_def py_int_of_float_def)
next
  case False
  then have pos: "0 < a" using assms(1) by simp
  have "\<lfloor>rat_of_int a / 4294967296\<rfloor> = a div 4294967296"
    using floor_divide_of_int_eq[of a "4294967296", where ?'a = rat] by simp
  then show ?thesis
    using pos by (simp add: new_feature_set_divided_of_def py_truediv_def nearest_double_exact[OF pos assms(2)]
        py_int_of_float_def)
qed

lemma floor_rat_numeral_div: "\<lfloor>(numeral a :: rat) / numeral b\<rfloor> = numeral a div numeral b"
  by (metis floor_divide_of_int_eq of_int_numeral)

lemma divided_error:
  "new_feature_set_divided_of a = Inl e \<Longrightarrow> e = OverflowError"
  by (auto simp: new_feature_set_divided_of_def py_truediv_def nearest_double_def Let_def split: sum.splits if_splits)

lemma decimal_value_from_nonneg:
  "list_all is_digit s \<Longrightarrow> 0 \<le> acc \<Longrightarrow> 0 \<le> decimal_value_from acc s"
proof (induction s arbitrary: acc)
  case Nil
  then show ?case by (simp add: decimal_value_from_def)
next
  case (Cons c cs)
  then have d: "is_digit c" and r: "list_all is_digit cs" by simp_all
  have "0 \<le> acc * 10 + (int (of_char c) - 48)"
    using digit_val_digit(3)[OF d, of 10] Cons.prems(2) by simp
  from Cons.IH[OF r this] show ?case by (simp add: decimal_value_from_def)
qed

lemma bit_by_shift: "(drop_bit n h AND 1 \<noteq> 0) = bit h n" for h :: int
  by (simp add: bit_iff_and_drop_bit_eq_1 and_one_eq)

lemma bit_by_mask_2: "(h AND 2 \<noteq> 0) = bit h 1" for h :: int
  using bit_iff_and_push_bit_not_eq_0[of h 1] by simp

lemma bit_by_mask_8: "(h AND 8 \<noteq> 0) = bit h 3" for h :: int
  using bit_iff_and_push_bit_not_eq_0[of h 3] by simp

lemma decimal_value_nonneg: "is_decimal s \<Longrightarrow> 0 \<le> decimal_value s"
  using decimal_value_from_nonneg[of s 0] by (simp add: is_decimal_def decimal_value_def)

lemma is_decimal_zeros: "0 < n \<Longrightarrow> is_decimal (replicate n (CHR ''0''))"
  by (simp add: is_decimal_def is_digit_def list_all_iff)

lemma decimal_value_zeros: "decimal_value (replicate n (CHR ''0'')) = 0"
  unfolding decimal_value_def decimal_value_from_def by (induction n) simp_all

section \<open>Properties of the codec\<close>

subsection \<open>Dicts and the keys of a payload\<close>

lemma map_of_foldl_update:
  "map_of (foldl (\<lambda>d (k, v). AList.update k v d) d items) = map_of d ++ map_of (rev items)"
proof (induction items arbitrary: d)
  case Nil
  then show ?case by simp
next
  case (Cons kv items)
  obtain k v where kv: "kv = (k, v)" by (cases kv)
  have "map_of (AList.update k v d) ++ map_of (rev items) = map_of d ++ map_of (rev items @ [(k, v)])"
    by (rule ext) (auto simp: update_conv' map_add_def split: option.splits)
  then show ?case
    by (simp add: kv Cons.IH)
qed

lemma map_of_dict_from: "map_of (dict_from items) = map_of (rev items)"
  by (simp add: dict_from_def map_of_foldl_update)


lemma decamelize_obj_dict:
  "decamelize_obj ign (PDict items) =
     PDict (dict_from (map (\<lambda>ab. (to_domain ign (fst ab),
                                    if is_container (snd ab) then decamelize_obj ign (snd ab) else snd ab)) items))"
  by (simp add: to_domain_def)

lemma validate_field_cong:
  "map_of d (field_name f) = map_of d' (field_name f) \<Longrightarrow> validate_field lx f d = validate_field lx f d'"
  by (cases f) simp

lemma validate_fields_cong:
  assumes "\<And>f. f \<in> set fs \<Longrightarrow> map_of d (field_name f) = map_of d' (field_name f)"
  shows "validate_fields lx fs d = validate_fields lx fs d'"
proof -
  have eq: "map (\<lambda>f. validate_field lx f d) fs = map (\<lambda>f. validate_field lx f d') fs"
    using assms by (intro map_cong refl validate_field_cong)
  show ?thesis by (simp only: validate_fields_def eq)
qed



subsection \<open>Attributes and hooks\<close>

lemma then_do_Inr_iff: "then_do r f = Inr y \<longleftrightarrow> (\<exists>x. r = Inr x \<and> f x = Inr y)"
  by (cases r) (simp_all add: then_do_def)

lemma then_do_Inr [simp]: "then_do (Inr x) f = f x"
  by (simp add: then_do_def)

lemma then_do_Inl [simp]: "then_do (Inl e) f = Inl e"
  by (simp add: then_do_def)

lemma set_attr_Inr:
  assumes "set_attr k v fs = Inr fs'"
  shows "fs' = AList.update k v fs" and "k \<in> fst ` set fs"
proof -
  from assms obtain u where u: "map_of fs k = Some u" and fs': "fs' = AList.update k v fs"
    by (auto simp: set_attr_def split: option.splits)
  show "fs' = AList.update k v fs" by (rule fs')
  from map_of_SomeD[OF u] show "k \<in> fst ` set fs" by force
qed

lemma set_attr_lookup:
  assumes "set_attr k v fs = Inr fs'"
  shows "map_of fs' k' = (if k' = k then Some v else map_of fs k')"
  unfolding set_attr_Inr(1)[OF assms] by (simp add: update_conv')

lemma set_attr_keys:
  assumes "set_attr k v fs = Inr fs'"
  shows "map fst fs' = map fst fs"
  using set_attr_Inr(2)[OF assms] unfolding set_attr_Inr(1)[OF assms] by (simp add: update_keys)

lemma get_attr_set_attr:
  assumes "set_attr k v fs = Inr fs'"
  shows "get_attr k' fs' = (if k' = k then Inr v else get_attr k' fs)"
  by (simp add: get_attr_def set_attr_lookup[OF assms])

lemma set_square_meter_Inr:
  "set_square_meter src dst fs = Inr fs' \<Longrightarrow>
   \<exists>v w. get_attr src fs = Inr v \<and> square_meter v = Inr w \<and> set_attr dst w fs = Inr fs'"
  by (auto simp: set_square_meter_def then_do_Inr_iff)

lemma set_square_meter_frame:
  assumes "set_square_meter src dst fs = Inr fs'"
  shows "k \<noteq> dst \<Longrightarrow> map_of fs' k = map_of fs k" and "map fst fs' = map fst fs"
    and "src \<noteq> dst \<Longrightarrow> then_do (get_attr src fs') square_meter = get_attr dst fs'"
proof -
  from set_square_meter_Inr[OF assms] obtain v w where
    v: "get_attr src fs = Inr v" and w: "square_meter v = Inr w" and s: "set_attr dst w fs = Inr fs'"
    by blast
  show "k \<noteq> dst \<Longrightarrow> map_of fs' k = map_of fs k" by (simp add: set_attr_lookup[OF s])
  show "map fst fs' = map fst fs" by (rule set_attr_keys[OF s])
  show "src \<noteq> dst \<Longrightarrow> then_do (get_attr src fs') square_meter = get_attr dst fs'"
    by (simp add: get_attr_set_attr[OF s] v w)
qed

lemma set_utc_datetime_Inr:
  "set_utc_datetime src dst fs = Inr fs' \<Longrightarrow>
   \<exists>v w. get_attr src fs = Inr v \<and> utc_datetime v = Inr w \<and> set_attr dst w fs = Inr fs'"
  by (auto simp: set_utc_datetime_def then_do_Inr_iff)

lemma set_utc_datetime_frame:
  assumes "set_utc_datetime src dst fs = Inr fs'"
  shows "k \<noteq> dst \<Longrightarrow> map_of fs' k = map_of fs k" and "map fst fs' = map fst fs"
    and "src \<noteq> dst \<Longrightarrow> then_do (get_attr src fs') utc_datetime = get_attr dst fs'"
proof -
  from set_utc_datetime_Inr[OF assms] obtain v w where
    v: "get_attr src fs = Inr v" and w: "utc_datetime v = Inr w" and s: "set_attr dst w fs = Inr fs'"
    by blast
  show "k \<noteq> dst \<Longrightarrow> map_of fs' k = map_of fs k" by (simp add: set_attr_lookup[OF s])
  show "map fst fs' = map fst fs" by (rule set_attr_keys[OF s])
  show "src \<noteq> dst \<Longrightarrow> then_do (get_attr src fs') utc_datetime = get_attr dst fs'"
    by (simp add: get_attr_set_attr[OF s] v w)
qed

lemma set_enum_name_Inr:
  "set_enum_name src dst fs = Inr fs' \<Longrightarrow>
   \<exists>v. get_attr src fs = Inr v \<and>
       (if v \<noteq> PNone then \<exists>n. enum_name v = Inr n \<and> set_attr dst n fs = Inr fs' else fs' = fs)"
  by (auto simp: set_enum_name_def then_do_Inr_iff split: if_splits)

lemma set_enum_name_frame:
  assumes "set_enum_name src dst fs = Inr fs'"
  shows "k \<noteq> dst \<Longrightarrow> map_of fs' k = map_of fs k" and "map fst fs' = map fst fs"
    and "src \<noteq> dst \<Longrightarrow> get_attr src fs' = Inr v \<Longrightarrow> v \<noteq> PNone \<Longrightarrow> get_attr dst fs' = enum_name v"
proof -
  from set_enum_name_Inr[OF assms] obtain u where
    u: "get_attr src fs = Inr u"
    and c: "if u \<noteq> PNone then \<exists>n. enum_name u = Inr n \<and> set_attr dst n fs = Inr fs' else fs' = fs"
    by blast
  show "k \<noteq> dst \<Longrightarrow> map_of fs' k = map_of fs k"
    using c by (auto simp: set_attr_lookup split: if_splits)
  show "map fst fs' = map fst fs"
    using c by (auto simp: set_attr_keys split: if_splits)
  show "src \<noteq> dst \<Longrightarrow> get_attr src fs' = Inr v \<Longrightarrow> v \<noteq> PNone \<Longrightarrow> get_attr dst fs' = enum_name v"
    using c u by (auto simp: get_attr_set_attr split: if_splits)
qed

lemma set_fan_power_options_Inr:
  "set_fan_power_options fs = Inr fs' \<Longrightarrow>
   \<exists>v. get_attr ''fan_power'' fs = Inr v \<and>
       (if v \<noteq> PNone
        then \<exists>ks fs1 n. enum_keys v = Inr ks \<and> set_attr ''fan_power_options'' ks fs = Inr fs1
               \<and> enum_name v = Inr n \<and> set_attr ''fan_power_name'' n fs1 = Inr fs'
        else fs' = fs)"
  by (auto simp: set_fan_power_options_def then_do_Inr_iff split: if_splits)

lemma set_fan_power_options_frame:
  assumes "set_fan_power_options fs = Inr fs'"
  shows "k \<noteq> ''fan_power_options'' \<Longrightarrow> k \<noteq> ''fan_power_name'' \<Longrightarrow> map_of fs' k = map_of fs k"
    and "map fst fs' = map fst fs"
    and "options_from ''fan_power'' ''fan_power_options'' fs'"
    and "named_from ''fan_power'' ''fan_power_name'' fs'"
proof -
  from set_fan_power_options_Inr[OF assms] obtain v where
    v: "get_attr ''fan_power'' fs = Inr v"
    and c: "if v \<noteq> PNone
        then \<exists>ks fs1 n. enum_keys v = Inr ks \<and> set_attr ''fan_power_options'' ks fs = Inr fs1
               \<and> enum_name v = Inr n \<and> set_attr ''fan_power_name'' n fs1 = Inr fs'
        else fs' = fs"
    by blast
  show "k \<noteq> ''fan_power_options'' \<Longrightarrow> k \<noteq> ''fan_power_name'' \<Longrightarrow> map_of fs' k = map_of fs k"
    using c by (auto simp: set_attr_lookup split: if_splits)
  show "map fst fs' = map fst fs"
    using c by (auto simp: set_attr_keys split: if_splits)
  show "options_from ''fan_power'' ''fan_power_options'' fs'"
    using c v by (auto simp: options_from_def get_attr_set_attr split: if_splits)
  show "named_from ''fan_power'' ''fan_power_name'' fs'"
    using c v by (auto simp: named_from_def get_attr_set_attr split: if_splits)
qed

lemma set_time_of_day_Inr:
  "set_time_of_day hour minute dst fs = Inr fs' \<Longrightarrow>
   \<exists>h. get_attr hour fs = Inr h \<and>
       (if h \<noteq> PNone
        then \<exists>mi w. get_attr minute fs = Inr mi \<and> time_of_day h mi = Inr w \<and> set_attr dst w fs = Inr fs'
        else set_attr dst PNone fs = Inr fs')"
  by (auto simp: set_time_of_day_def then_do_Inr_iff split: if_splits)

lemma set_time_of_day_frame:
  assumes "set_time_of_day hour minute dst fs = Inr fs'"
  shows "k \<noteq> dst \<Longrightarrow> map_of fs' k = map_of fs k" and "map fst fs' = map fst fs"
    and "hour \<noteq> dst \<Longrightarrow> minute \<noteq> dst \<Longrightarrow> time_from hour minute dst fs'"
proof -
  from set_time_of_day_Inr[OF assms] obtain h where
    h: "get_attr hour fs = Inr h"
    and c: "if h \<noteq> PNone
        then \<exists>mi w. get_attr minute fs = Inr mi \<and> time_of_day h mi = Inr w \<and> set_attr dst w fs = Inr fs'
        else set_attr dst PNone fs = Inr fs'"
    by blast
  show "k \<noteq> dst \<Longrightarrow> map_of fs' k = map_of fs k"
    using c by (auto simp: set_attr_lookup split: if_splits)
  show "map fst fs' = map fst fs"
    using c by (auto simp: set_attr_keys split: if_splits)
  show "hour \<noteq> dst \<Longrightarrow> minute \<noteq> dst \<Longrightarrow> time_from hour minute dst fs'"
  proof (cases "h = PNone")
    case True
    then have s: "set_attr dst PNone fs = Inr fs'" using c by simp
    assume "hour \<noteq> dst" "minute \<noteq> dst"
    then show ?thesis
      using h True by (cases "get_attr minute fs") (simp_all add: time_from_def get_attr_set_attr[OF s] time_of_day_def)
  next
    case False
    then obtain mi w where mi: "get_attr minute fs = Inr mi" and w: "time_of_day h mi = Inr w"
        and s: "set_attr dst w fs = Inr fs'"
      using c by auto
    assume "hour \<noteq> dst" "minute \<noteq> dst"
    then show ?thesis
      using h mi w by (simp add: time_from_def get_attr_set_attr[OF s])
  qed
qed

lemma get_attr_cong: "map_of fs' k = map_of fs k \<Longrightarrow> get_attr k fs' = get_attr k fs"
  by (simp add: get_attr_def)

lemma named_from_frame:
  assumes "map_of fs' src = map_of fs src" and "map_of fs' dst = map_of fs dst"
  shows "named_from src dst fs' = named_from src dst fs"
  unfolding named_from_def get_attr_cong[OF assms(1)] get_attr_cong[OF assms(2)] ..

lemma options_from_frame:
  assumes "map_of fs' src = map_of fs src" and "map_of fs' dst = map_of fs dst"
  shows "options_from src dst fs' = options_from src dst fs"
  unfolding options_from_def get_attr_cong[OF assms(1)] get_attr_cong[OF assms(2)] ..

lemma derived_from_frame:
  assumes "map_of fs' src = map_of fs src" and "map_of fs' dst = map_of fs dst"
  shows "derived_from f src dst fs' = derived_from f src dst fs"
  unfolding derived_from_def get_attr_cong[OF assms(1)] get_attr_cong[OF assms(2)] ..

lemma time_from_frame:
  assumes "map_of fs' h = map_of fs h" and "map_of fs' mi = map_of fs mi"
    and "map_of fs' dst = map_of fs dst"
  shows "time_from h mi dst fs' = time_from h mi dst fs"
  unfolding time_from_def get_attr_cong[OF assms(1)] get_attr_cong[OF assms(2)]
    get_attr_cong[OF assms(3)] ..

lemma set_enum_name_named:
  assumes "set_enum_name src dst fs = Inr fs'" "src \<noteq> dst"
  shows "named_from src dst fs'"
proof -
  from set_enum_name_Inr[OF assms(1)] obtain u where u: "get_attr src fs = Inr u" by blast
  have "map_of fs' src = map_of fs src" using set_enum_name_frame(1)[OF assms(1), of src] assms(2) by simp
  then have u': "get_attr src fs' = Inr u" using u by (simp add: get_attr_def)
  show ?thesis
    using set_enum_name_frame(3)[OF assms(1) assms(2) u'] u' by (auto simp: named_from_def)
qed

lemma Status_model_post_init_Inr:
  assumes "Status_model_post_init fs = Inr fs'"
  shows "derived_consistent StatusPostInit fs'"
    and "k \<notin> set (hook_writes StatusPostInit) \<Longrightarrow> map_of fs' k = map_of fs k"
    and "map fst fs' = map fst fs"
proof -
  from assms obtain fs1 fs2 fs3 fs4 fs5 where
    s1: "set_square_meter ''clean_area'' ''square_meter_clean_area'' fs = Inr fs1" and
    s2: "set_enum_name ''error_code'' ''error_code_name'' fs1 = Inr fs2" and
    s3: "set_enum_name ''state'' ''state_name'' fs2 = Inr fs3" and
    s4: "set_enum_name ''water_box_mode'' ''water_box_mode_name'' fs3 = Inr fs4" and
    s5: "set_fan_power_options fs4 = Inr fs5" and
    s6: "set_enum_name ''mop_mode'' ''mop_mode_name'' fs5 = Inr fs'"
    unfolding Status_model_post_init_def then_do_Inr_iff by blast
  note f1 = set_square_meter_frame(1)[OF s1]
  note f2 = set_enum_name_frame(1)[OF s2]
  note f3 = set_enum_name_frame(1)[OF s3]
  note f4 = set_enum_name_frame(1)[OF s4]
  note f5 = set_fan_power_options_frame(1)[OF s5]
  note f6 = set_enum_name_frame(1)[OF s6]
  show "map fst fs' = map fst fs"
    by (simp add: set_square_meter_frame(2)[OF s1] set_enum_name_frame(2)[OF s2]
        set_enum_name_frame(2)[OF s3] set_enum_name_frame(2)[OF s4]
        set_fan_power_options_frame(2)[OF s5] set_enum_name_frame(2)[OF s6])
  show "k \<notin> set (hook_writes StatusPostInit) \<Longrightarrow> map_of fs' k = map_of fs k"
    by (simp add: hook_writes_def f1 f2 f3 f4 f5 f6)
  have c1: "derived_from square_meter ''clean_area'' ''square_meter_clean_area'' fs1"
    using set_square_meter_frame(3)[OF s1] by (simp add: derived_from_def)
  have c2: "named_from ''error_code'' ''error_code_name'' fs2"
    by (rule set_enum_name_named[OF s2]) simp
  have c3: "named_from ''state'' ''state_name'' fs3"
    by (rule set_enum_name_named[OF s3]) simp
  have c4: "named_from ''water_box_mode'' ''water_box_mode_name'' fs4"
    by (rule set_enum_name_named[OF s4]) simp
  note c5 = set_fan_power_options_frame(3,4)[OF s5]
  have c6: "named_from ''mop_mode'' ''mop_mode_name'' fs'"
    by (rule set_enum_name_named[OF s6]) simp
  have d1: "derived_from square_meter ''clean_area'' ''square_meter_clean_area'' fs'"
    by (subst derived_from_frame[where fs = fs1]) (simp_all add: f2 f3 f4 f5 f6 c1)
  have d2: "named_from ''error_code'' ''error_code_name'' fs'"
    by (subst named_from_frame[where fs = fs2]) (simp_all add: f3 f4 f5 f6 c2)
  have d3: "named_from ''state'' ''state_name'' fs'"
    by (subst named_from_frame[where fs = fs3]) (simp_all add: f4 f5 f6 c3)
  have d4: "named_from ''water_box_mode'' ''water_box_mode_name'' fs'"
    by (subst named_from_frame[where fs = fs4]) (simp_all add: f5 f6 c4)
  have d5: "options_from ''fan_power'' ''fan_power_options'' fs'"
    by (subst options_from_frame[where fs = fs5]) (simp_all add: f6 c5)
  have d6: "named_from ''fan_power'' ''fan_power_name'' fs'"
    by (subst named_from_frame[where fs = fs5]) (simp_all add: f6 c5)
  show "derived_consistent StatusPostInit fs'"
    using d1 d2 d3 d4 d5 d6 c6 by (simp add: derived_consistent_def)
qed

lemma CleanSummary_model_post_init_Inr:
  assumes "CleanSummary_model_post_init fs = Inr fs'"
  shows "derived_consistent CleanSummaryPostInit fs'"
    and "k \<notin> set (hook_writes CleanSummaryPostInit) \<Longrightarrow> map_of fs' k = map_of fs k"
    and "map fst fs' = map fst fs"
proof -
  from assms have s1: "set_square_meter ''clean_area'' ''square_meter_clean_area'' fs = Inr fs'"
    by (simp add: CleanSummary_model_post_init_def)
  show "derived_consistent CleanSummaryPostInit fs'"
    using set_square_meter_frame(3)[OF s1] by (simp add: derived_consistent_def derived_from_def)
  show "k \<notin> set (hook_writes CleanSummaryPostInit) \<Longrightarrow> map_of fs' k = map_of fs k"
    by (simp add: hook_writes_def set_square_meter_frame(1)[OF s1])
  show "map fst fs' = map fst fs"
    by (rule set_square_meter_frame(2)[OF s1])
qed

lemma CleanRecord_model_post_init_Inr:
  assumes "CleanRecord_model_post_init fs = Inr fs'"
  shows "derived_consistent CleanRecordPostInit fs'"
    and "k \<notin> set (hook_writes CleanRecordPostInit) \<Longrightarrow> map_of fs' k = map_of fs k"
    and "map fst fs' = map fst fs"
proof -
  from assms obtain fs1 fs2 where
    s1: "set_square_meter ''area'' ''square_meter_area'' fs = Inr fs1" and
    s2: "set_utc_datetime ''begin'' ''begin_datetime'' fs1 = Inr fs2" and
    s3: "set_utc_datetime ''end'' ''end_datetime'' fs2 = Inr fs'"
    unfolding CleanRecord_model_post_init_def then_do_Inr_iff by blast
  note f1 = set_square_meter_frame(1)[OF s1]
  note f2 = set_utc_datetime_frame(1)[OF s2]
  note f3 = set_utc_datetime_frame(1)[OF s3]
  show "map fst fs' = map fst fs"
    by (simp add: set_square_meter_frame(2)[OF s1] set_utc_datetime_frame(2)[OF s2]
        set_utc_datetime_frame(2)[OF s3])
  show "k \<notin> set (hook_writes CleanRecordPostInit) \<Longrightarrow> map_of fs' k = map_of fs k"
    by (simp add: hook_writes_def f1 f2 f3)
  have c1: "derived_from square_meter ''area'' ''square_meter_area'' fs1"
    using set_square_meter_frame(3)[OF s1] by (simp add: derived_from_def)
  have c2: "derived_from utc_datetime ''begin'' ''begin_datetime'' fs2"
    using set_utc_datetime_frame(3)[OF s2] by (simp add: derived_from_def)
  have c3: "derived_from utc_datetime ''end'' ''end_datetime'' fs'"
    using set_utc_datetime_frame(3)[OF s3] by (simp add: derived_from_def)
  have d1: "derived_from square_meter ''area'' ''square_meter_area'' fs'"
    by (subst derived_from_frame[where fs = fs1]) (simp_all add: f2 f3 c1)
  have d2: "derived_from utc_datetime ''begin'' ''begin_datetime'' fs'"
    by (subst derived_from_frame[where fs = fs2]) (simp_all add: f3 c2)
  show "derived_consistent CleanRecordPostInit fs'"
    using d1 d2 c3 by (simp add: derived_consistent_def)
qed

lemma RoborockBaseTimer_init_Inr:
  assumes "RoborockBaseTimer_init fs = Inr fs'"
  shows "derived_consistent TimerInit fs'"
    and "k \<notin> set (hook_writes TimerInit) \<Longrightarrow> map_of fs' k = map_of fs k"
    and "map fst fs' = map fst fs"
proof -
  from assms obtain fs1 where
    s1: "set_time_of_day ''start_hour'' ''start_minute'' ''start_time'' fs = Inr fs1" and
    s2: "set_time_of_day ''end_hour'' ''end_minute'' ''end_time'' fs1 = Inr fs'"
    unfolding RoborockBaseTimer_init_def then_do_Inr_iff by blast
  note f1 = set_time_of_day_frame(1)[OF s1]
  note f2 = set_time_of_day_frame(1)[OF s2]
  show "map fst fs' = map fst fs"
    by (simp add: set_time_of_day_frame(2)[OF s1] set_time_of_day_frame(2)[OF s2])
  show "k \<notin> set (hook_writes TimerInit) \<Longrightarrow> map_of fs' k = map_of fs k"
    by (simp add: hook_writes_def f1 f2)
  have c1: "time_from ''start_hour'' ''start_minute'' ''start_time'' fs1"
    by (rule set_time_of_day_frame(3)[OF s1]) simp_all
  have c2: "time_from ''end_hour'' ''end_minute'' ''end_time'' fs'"
    by (rule set_time_of_day_frame(3)[OF s2]) simp_all
  have d1: "time_from ''start_hour'' ''start_minute'' ''start_time'' fs'"
    by (subst time_from_frame[where fs = fs1]) (simp_all add: f2 c1)
  show "derived_consistent TimerInit fs'"
    using d1 c2 by (simp add: derived_consistent_def)
qed

lemma run_hook_Inr:
  assumes "run_hook hk fs = Inr fs'"
  shows "derived_consistent hk fs'"
    and "k \<notin> set (hook_writes hk) \<Longrightarrow> map_of fs' k = map_of fs k"
    and "map fst fs' = map fst fs"
proof -
  show "derived_consistent hk fs'"
    using assms Status_model_post_init_Inr(1) CleanSummary_model_post_init_Inr(1)
      CleanRecord_model_post_init_Inr(1) RoborockBaseTimer_init_Inr(1)
    by (cases hk) (simp_all add: run_hook_def derived_consistent_def)
  show "k \<notin> set (hook_writes hk) \<Longrightarrow> map_of fs' k = map_of fs k"
    using assms Status_model_post_init_Inr(2) CleanSummary_model_post_init_Inr(2)
      CleanRecord_model_post_init_Inr(2) RoborockBaseTimer_init_Inr(2)
    by (cases hk) (simp_all add: run_hook_def)
  show "map fst fs' = map fst fs"
    using assms Status_model_post_init_Inr(3) CleanSummary_model_post_init_Inr(3)
      CleanRecord_model_post_init_Inr(3) RoborockBaseTimer_init_Inr(3)
    by (cases hk) (simp_all add: run_hook_def)
qed

subsection \<open>What a decode returns\<close>

lemma validate_model_Inr:
  assumes "validate_model lx cls d = Inr self"
  shows "\<exists>vs fs. validate_fields lx (model_fields cls) d = Inr vs
           \<and> run_hook (model_hook cls) vs = Inr fs \<and> self = PObj cls fs"
  using assms by (cases cls) (auto simp: validate_fields_def split: sum.splits)

lemma construct_Inr:
  assumes "construct lx cls d = Inr self"
  shows "\<exists>vs fs. validate_fields lx (model_fields cls) d = Inr vs
           \<and> run_hook (model_hook cls) vs = Inr fs \<and> self = PObj cls fs"
  using assms by (auto simp: construct_def split: sum.splits)

lemma from_dict_Inr:
  assumes "from_dict lx cls data = Inr self"
  shows "\<exists>d vs fs. validate_fields lx (model_fields cls) d = Inr vs
           \<and> run_hook (model_hook cls) vs = Inr fs \<and> self = PObj cls fs
           \<and> (case data of
                 PDict items \<Rightarrow> decamelize_obj (model_ignore_keys cls) data = PDict d
               | _ \<Rightarrow> d = [])"
proof (cases data)
  case (PDict items)
  let ?d = "dict_from (map (\<lambda>ab. (to_domain (model_ignore_keys cls) (fst ab),
              if is_container (snd ab) then decamelize_obj (model_ignore_keys cls) (snd ab) else snd ab)) items)"
  have dec: "decamelize_obj (model_ignore_keys cls) data = PDict ?d"
    unfolding PDict by (rule decamelize_obj_dict)
  have "validate_model lx cls ?d = Inr self"
    using assms unfolding from_dict_def PDict Let_def model_validate_def decamelize_obj_dict
    by (simp split: sum.splits if_splits)
  from validate_model_Inr[OF this] show ?thesis
    using dec PDict by auto
qed (use assms construct_Inr[of lx cls "[]" self] in \<open>auto simp: from_dict_def\<close>)

subsection \<open>Validated fields\<close>

lemma collect_Inr: "collect rs = Inr vs \<Longrightarrow> rs = map Inr vs"
  by (induction rs arbitrary: vs) (auto split: sum.splits if_splits)

lemma collect_map_Inr: "collect (map Inr vs) = Inr vs"
  by (induction vs) simp_all

lemma collect_Inl_member:
  "r \<in> set rs \<Longrightarrow> r = Inl e \<Longrightarrow> \<exists>e'. collect rs = Inl e'"
  by (induction rs) (auto split: sum.splits)

lemma collect_only_validation:
  "collect rs = Inl e \<Longrightarrow> (\<And>r e'. r \<in> set rs \<Longrightarrow> r = Inl e' \<Longrightarrow> e' = ValidationError)
   \<Longrightarrow> e = ValidationError"
  by (induction rs arbitrary: e) (auto split: sum.splits if_splits)

lemma validate_field_key: "validate_field lx f d = Inr kv \<Longrightarrow> fst kv = field_name f"
  by (cases f) (auto split: option.splits sum.splits)

lemma validate_fields_keys:
  assumes "validate_fields lx fs d = Inr vs"
  shows "map fst vs = map field_name fs"
proof -
  from assms have eq: "map (\<lambda>f. validate_field lx f d) fs = map Inr vs"
    by (simp add: validate_fields_def collect_Inr)
  then have len: "length fs = length vs" by (metis length_map)
  show ?thesis
  proof (rule nth_equalityI)
    show "length (map fst vs) = length (map field_name fs)" using len by simp
    fix i assume i: "i < length (map fst vs)"
    then have "validate_field lx (fs ! i) d = Inr (vs ! i)"
      using eq len by (metis length_map nth_map)
    from validate_field_key[OF this] show "map fst vs ! i = map field_name fs ! i"
      using i len by simp
  qed
qed

lemma validate_fields_member:
  assumes "validate_fields lx fs d = Inr vs" and "f \<in> set fs"
  shows "\<exists>v. validate_field lx f d = Inr (field_name f, v) \<and> (field_name f, v) \<in> set vs"
proof -
  from assms(1) have eq: "map (\<lambda>f. validate_field lx f d) fs = map Inr vs"
    by (simp add: validate_fields_def collect_Inr)
  from assms(2) have "validate_field lx f d \<in> set (map Inr vs)"
    unfolding eq[symmetric] by simp
  then obtain kv where kv: "validate_field lx f d = Inr kv" "kv \<in> set vs" by auto
  from validate_field_key[OF kv(1)] have "kv = (field_name f, snd kv)" by (cases kv) simp
  then show ?thesis using kv by metis
qed

lemma validate_fields_lookup:
  assumes "validate_fields lx fs d = Inr vs" and "f \<in> set fs" and "distinct (map field_name fs)"
  shows "\<exists>v. validate_field lx f d = Inr (field_name f, v) \<and> map_of vs (field_name f) = Some v"
proof -
  from validate_fields_member[OF assms(1,2)] obtain v where
    v: "validate_field lx f d = Inr (field_name f, v)" "(field_name f, v) \<in> set vs" by blast
  have "distinct (map fst vs)" using assms(3) validate_fields_keys[OF assms(1)] by simp
  from map_of_is_SomeI[OF this v(2)] v(1) show ?thesis by blast
qed



subsection \<open>Default construction\<close>

lemma set_attr_same:
  "map_of fs k = Some v \<Longrightarrow> set_attr k v fs = Inr fs"
  by (simp add: set_attr_def update_triv)

lemma get_attr_Some: "map_of fs k = Some v \<Longrightarrow> get_attr k fs = Inr v"
  by (simp add: get_attr_def)

lemma run_hook_defaults:
  assumes "list_all (\<lambda>k. map_of fs k = Some PNone) (hook_uses hk)"
  shows "run_hook hk fs = Inr fs"
proof (cases hk)
  case NoHook
  then show ?thesis by (simp add: run_hook_def)
next
  case StatusPostInit
  with assms show ?thesis
    by (simp add: run_hook_def hook_uses_def Status_model_post_init_def set_square_meter_def
        set_enum_name_def set_fan_power_options_def get_attr_Some set_attr_same square_meter_def)
next
  case CleanSummaryPostInit
  with assms show ?thesis
    by (simp add: run_hook_def hook_uses_def CleanSummary_model_post_init_def set_square_meter_def
        get_attr_Some set_attr_same square_meter_def)
next
  case CleanRecordPostInit
  with assms show ?thesis
    by (simp add: run_hook_def hook_uses_def CleanRecord_model_post_init_def set_square_meter_def
        set_utc_datetime_def get_attr_Some set_attr_same square_meter_def utc_datetime_def py_truthy_def)
next
  case TimerInit
  with assms show ?thesis
    by (simp add: run_hook_def hook_uses_def RoborockBaseTimer_init_def set_time_of_day_def
        get_attr_Some set_attr_same)
qed

lemma validate_fields_defaults:
  assumes "list_all (\<lambda>f. field_default f \<noteq> Required) fs"
  shows "validate_fields lx fs [] = Inr (map default_attr fs)"
proof -
  have "map (\<lambda>f. validate_field lx f []) fs = map Inr (map default_attr fs)"
    using assms
  proof (induction fs)
    case Nil
    then show ?case by simp
  next
    case (Cons f fs)
    then show ?case
      by (cases f; cases "field_default f") (simp_all add: default_attr_def default_value_def)
  qed
  then show ?thesis
    by (simp only: validate_fields_def collect_map_Inr)
qed

subsection \<open>Enumeration fields\<close>

lemma validate_optional_enum:
  assumes "validate lx (TOptional (TEnum tbl)) v = Inr w"
  shows "w = PNone \<or> (\<exists>c. w = PEnum tbl c \<and> c \<in> snd ` set tbl)"
  using assms by (auto simp: enum_lookup_def split: if_splits option.splits)

lemma built_Inr:
  assumes "construct lx cls kwargs = Inr self \<or> from_dict lx cls data = Inr self"
  shows "\<exists>d vs fs. validate_fields lx (model_fields cls) d = Inr vs
           \<and> run_hook (model_hook cls) vs = Inr fs \<and> self = PObj cls fs"
  using assms construct_Inr[of lx cls kwargs self] from_dict_Inr[of lx cls data self] by blast

lemma decoded_optional_enum:
  assumes dec: "construct lx cls kwargs = Inr self \<or> from_dict lx cls data = Inr self"
    and fld: "Field k (TOptional (TEnum tbl)) DefaultNone \<in> set (model_fields cls)"
    and nw: "k \<notin> set (hook_writes (model_hook cls))"
    and dist: "distinct (field_names cls)"
  shows "attr k self = Inr PNone \<or> (\<exists>c. attr k self = Inr (PEnum tbl c) \<and> c \<in> snd ` set tbl)"
proof -
  from built_Inr[OF dec] obtain d vs fs where
    vf: "validate_fields lx (model_fields cls) d = Inr vs"
    and hk: "run_hook (model_hook cls) vs = Inr fs"
    and self: "self = PObj cls fs"
    by auto
  from validate_fields_lookup[OF vf fld] dist obtain v where
    v: "validate_field lx (Field k (TOptional (TEnum tbl)) DefaultNone) d = Inr (k, v)"
       "map_of vs k = Some v"
    by (auto simp: field_names_def)
  have "v = PNone \<or> (\<exists>c. v = PEnum tbl c \<and> c \<in> snd ` set tbl)"
  proof (cases "map_of d k")
    case None
    then show ?thesis using v(1) by (simp add: default_value_def)
  next
    case (Some x)
    then have "validate lx (TOptional (TEnum tbl)) x = Inr v"
      using v(1) by (auto split: sum.splits if_splits)
    from validate_optional_enum[OF this] show ?thesis .
  qed
  moreover have "map_of fs k = Some v"
    using run_hook_Inr(2)[OF hk nw] v(2) by simp
  ultimately show ?thesis by (auto simp: attr_def self)
qed

lemma code_or_none_dict_from:
  "(name \<notin> fst ` set tbl \<longrightarrow> code_or_none (dict_from tbl) name = PNone)
   \<and> (name \<in> fst ` set tbl \<longrightarrow> (\<exists>c. (name, c) \<in> set tbl \<and> code_or_none (dict_from tbl) name = PInt c))"
proof (cases "map_of (rev tbl) name")
  case None
  then have "name \<notin> fst ` set tbl" by (simp add: map_of_eq_None_iff)
  then show ?thesis using None by (simp add: code_or_none_def map_of_dict_from)
next
  case (Some c)
  from map_of_SomeD[OF Some] have "(name, c) \<in> set tbl" by simp
  then show ?thesis using Some by (force simp: code_or_none_def map_of_dict_from)
qed

lemma get_code_cases:
  assumes "attr k self = Inr v"
  shows "v = PNone \<Longrightarrow> get_code k self name = Inl RoborockException"
    and "v = PEnum tbl c \<Longrightarrow> get_code k self name = Inr (code_or_none (dict_from tbl) name)"
proof -
  from assms obtain m fs where self: "self = PObj m fs" and g: "get_attr k fs = Inr v"
    by (cases self) (auto simp: attr_def get_attr_def split: option.splits)
  show "v = PNone \<Longrightarrow> get_code k self name = Inl RoborockException"
    by (simp add: get_code_def self g)
  show "v = PEnum tbl c \<Longrightarrow> get_code k self name = Inr (code_or_none (dict_from tbl) name)"
    by (simp add: get_code_def self g enum_as_dict_def)
qed

lemma code_query_get_code:
  assumes "attr k self = Inr PNone \<or> (\<exists>c. attr k self = Inr (PEnum tbl c) \<and> c \<in> snd ` set tbl)"
  shows "code_query tbl k self name (get_code k self name)"
proof -
  from assms consider "attr k self = Inr PNone" | c where "attr k self = Inr (PEnum tbl c)"
    by blast
  then show ?thesis
  proof cases
    case 1
    from get_code_cases(1)[OF 1 refl] 1 show ?thesis by (simp add: code_query_def)
  next
    case 2
    from get_code_cases(2)[OF 2 refl] 2 code_or_none_dict_from[of name tbl]
    show ?thesis by (auto simp: code_query_def)
  qed
qed


lemma hook_free_errors:
  "hook_free t \<Longrightarrow> validate lx t v = Inl e \<Longrightarrow> e = ValidationError"
  "hook_free_model m \<Longrightarrow> validate_model lx m d = Inl e \<Longrightarrow> e = ValidationError"
  "hook_free_field f \<Longrightarrow> validate_field lx f d = Inl e \<Longrightarrow> e = ValidationError"
proof (induction t and m and f arbitrary: v e and d e and d e)
  case (TList t)
  show ?case
  proof (cases v)
    case (PList xs)
    with TList.prems(2) have c: "collect (map (validate lx t) xs) = Inl e"
      by (simp split: sum.splits)
    show ?thesis
    proof (rule collect_only_validation[OF c])
      fix r e' assume "r \<in> set (map (validate lx t) xs)" "r = Inl e'"
      then obtain x where "validate lx t x = Inl e'" by auto
      with TList.IH TList.prems(1) show "e' = ValidationError" by simp
    qed
  qed (use TList.prems(2) in simp_all)
next
  case (TModel m)
  then show ?case by (cases v) (auto split: if_splits)
next
  case (Model n fs ign hk ad)
  from Model.prems(1) have hk: "hk = NoHook" and ff: "list_all hook_free_field fs" by simp_all
  from Model.prems(2) hk have c: "collect (map (\<lambda>f. validate_field lx f d) fs) = Inl e"
    by (simp add: run_hook_def split: sum.splits)
  show ?case
  proof (rule collect_only_validation[OF c])
    fix r e' assume "r \<in> set (map (\<lambda>f. validate_field lx f d) fs)" "r = Inl e'"
    then obtain f where f: "f \<in> set fs" "validate_field lx f d = Inl e'" by auto
    with ff have "hook_free_field f" by (simp add: list_all_iff)
    from Model.IH[OF f(1) this f(2)] show "e' = ValidationError" .
  qed
next
  case (Field k t dflt)
  then show ?case
    by (auto simp: default_value_def split: option.splits sum.splits fdefault.splits)
qed (auto simp: enum_lookup_def split: if_splits option.splits pyval.splits)

lemma unregistered_rejected:
  assumes "is_enum_field tbl t" and "v \<noteq> PNone"
    and "\<forall>c. enum_code_of lx v = Some c \<longrightarrow> c \<notin> snd ` set tbl"
  shows "validate lx t v = Inl ValidationError"
  using assms by (auto simp: is_enum_field_def enum_lookup_def split: option.splits)

lemma validate_model_field_error:
  assumes fld: "f \<in> set (model_fields cls)" and err: "validate_field lx f d = Inl ValidationError"
  shows "\<exists>e. validate_model lx cls d = Inl e"
    and "list_all hook_free_field (model_fields cls) \<Longrightarrow> validate_model lx cls d = Inl ValidationError"
proof -
  obtain n fs ign hk ad where cls: "cls = Model n fs ign hk ad" by (cases cls)
  have mem: "validate_field lx f d \<in> set (map (\<lambda>f. validate_field lx f d) fs)"
    using fld by (simp add: cls)
  from collect_Inl_member[OF mem err] obtain e' where
    c: "collect (map (\<lambda>f. validate_field lx f d) fs) = Inl e'" by blast
  then have v: "validate_model lx cls d = Inl e'" by (simp add: cls)
  then show "\<exists>e. validate_model lx cls d = Inl e" by blast
  assume ff: "list_all hook_free_field (model_fields cls)"
  have "e' = ValidationError"
  proof (rule collect_only_validation[OF c])
    fix r e'' assume "r \<in> set (map (\<lambda>f. validate_field lx f d) fs)" "r = Inl e''"
    then obtain g where g: "g \<in> set fs" "validate_field lx g d = Inl e''" by auto
    with ff have "hook_free_field g" by (simp add: list_all_iff cls)
    from hook_free_errors(3)[OF this g(2)] show "e'' = ValidationError" .
  qed
  with v show "validate_model lx cls d = Inl ValidationError" by simp
qed

subsection \<open>Round trip\<close>










































section \<open>Claims about the capability decoder\<close>

subsection \<open>The flags read from the high part of the extended word\<close>

text \<open>
  Claim C2, as the code has it. For all strings of decimal digits \<open>feature_set\<close> and
  \<open>new_feature_set\<close> that \<^verbatim>\<open>int\<close> accepts (at most 4300 characters each) with
  \<open>new_feature_set\<close> denoting a number below \<open>2 ^ 53\<close>, the decoder returns an object in which
  \<open>wash_then_charge_cmd_supported\<close> is bit 5 of the part of the extended word beyond its low
  32 bits, \<open>support_smart_scene\<close> is bit 1 of it, \<open>support_floor_edit\<close> bit 3 and
  \<open>support_furniture\<close> bit 4.
\<close>

theorem extended_high_flags:
  assumes "is_decimal feature_set" and "length feature_set \<le> int_max_str_digits"
    and "is_decimal new_feature_set" and "length new_feature_set \<le> int_max_str_digits"
    and "decimal_value new_feature_set < 2 ^ 53"
  shows "\<exists>f. build_device_features feature_set new_feature_set = Inr f
           \<and> wash_then_charge_cmd_supported f = bit (decimal_value new_feature_set div 2 ^ 32) 5
           \<and> support_smart_scene f = bit (decimal_value new_feature_set div 2 ^ 32) 1
           \<and> support_floor_edit f = bit (decimal_value new_feature_set div 2 ^ 32) 3
           \<and> support_furniture f = bit (decimal_value new_feature_set div 2 ^ 32) 4"
proof -
  obtain v where v: "py_int 16 (CHR ''0'' # CHR ''x'' # last8 new_feature_set) = Inr v"
    using py_int_hex_tail[OF assms(3)] by auto
  have q: "new_feature_set_divided_of (decimal_value new_feature_set)
             = Inr (decimal_value new_feature_set div 4294967296)"
    using divided_exact[OF decimal_value_nonneg[OF assms(3)] assms(5)] by simp
  show ?thesis
    by (simp add: build_device_features_def py_int_decimal[OF assms(1,2)]
        py_int_decimal[OF assms(3,4)] q v device_features_of_def
        bit_by_shift bit_by_mask_2 bit_by_mask_8)
qed

theorem extended_high_flags_witness:
  "is_decimal ''0'' \<and> length ''0'' \<le> int_max_str_digits
   \<and> is_decimal ''137438953472'' \<and> length ''137438953472'' \<le> int_max_str_digits
   \<and> decimal_value ''137438953472'' < 2 ^ 53
   \<and> decimal_value ''137438953472'' div 2 ^ 32 = 32
   \<and> (\<exists>f. build_device_features ''0'' ''137438953472'' = Inr f
          \<and> wash_then_charge_cmd_supported f
          \<and> \<not> support_smart_scene f
          \<and> \<not> support_floor_edit f
          \<and> \<not> support_furniture f)"
proof -
  have d: "is_decimal ''0''" "is_decimal ''137438953472''"
    by (simp_all add: is_decimal_def is_digit_def)
  have l: "length ''0'' \<le> int_max_str_digits" "length ''137438953472'' \<le> int_max_str_digits"
    by (simp_all add: int_max_str_digits_def)
  have v: "decimal_value ''137438953472'' = 137438953472"
    by (simp add: decimal_value_def decimal_value_from_def)
  have b: "decimal_value ''137438953472'' < 2 ^ 53"
    by (simp add: v)
  have bits: "bit (32::int) 5" "\<not> bit (32::int) 1" "\<not> bit (32::int) 3" "\<not> bit (32::int) 4"
    by (simp_all add: bit_iff_odd)
  show ?thesis
    using extended_high_flags[OF d(1) l(1) d(2) l(2) b] d l b by (simp add: v bits)
qed

text \<open>
  Claim C2, as the specification states it, reads \<open>wash_then_charge_cmd_supported\<close> from bit 0,
  for every pair of strings of digits. The extended word \<open>4294967296 = 2 ^ 32\<close> has the high
  part 1, whose bit 0 is set, and the decoder reports the flag as unset. Beyond \<open>2 ^ 53\<close> the
  other flags leave the high part as well: \<open>9007207844675583 = 2 ^ 53 + 2 ^ 33 - 1\<close> has the
  high part 2097153, whose bit 1 is clear, and the decoder reports \<open>support_smart_scene\<close>,
  because its division rounds the word up to \<open>2 ^ 53 + 2 ^ 33\<close>. A string of 4301 zeros is a
  string of digits for which the decoder raises \<^verbatim>\<open>ValueError\<close>.
\<close>

theorem extended_high_flags_counterexample:
  "is_decimal ''0'' \<and> is_decimal ''4294967296''
   \<and> decimal_value ''4294967296'' div 2 ^ 32 = 1
   \<and> bit (1::int) 0
   \<and> map_sum id wash_then_charge_cmd_supported (build_device_features ''0'' ''4294967296'') = Inr False
   \<and> is_decimal ''9007207844675583''
   \<and> decimal_value ''9007207844675583'' div 2 ^ 32 = 2097153
   \<and> \<not> bit (2097153::int) 1
   \<and> map_sum id support_smart_scene (build_device_features ''0'' ''9007207844675583'') = Inr True
   \<and> is_decimal (replicate 4301 (CHR ''0''))
   \<and> build_device_features ''0'' (replicate 4301 (CHR ''0'')) = Inl ValueError"
proof -
  have d0: "is_decimal ''0''" and d1: "is_decimal ''4294967296''"
    and d2: "is_decimal ''9007207844675583''"
    by (simp_all add: is_decimal_def is_digit_def)
  have l: "length ''0'' \<le> int_max_str_digits" "length ''4294967296'' \<le> int_max_str_digits"
    "length ''9007207844675583'' \<le> int_max_str_digits"
    by (simp_all add: int_max_str_digits_def)
  have v1: "decimal_value ''4294967296'' = 4294967296"
    and v2: "decimal_value ''9007207844675583'' = 9007207844675583"
    by (simp_all add: decimal_value_def decimal_value_from_def)
  have p0: "py_int 10 ''0'' = Inr 0"
    using py_int_decimal[OF d0 l(1)] by (simp add: decimal_value_def decimal_value_from_def)
  have p1: "py_int 10 ''4294967296'' = Inr 4294967296"
    using py_int_decimal[OF d1 l(2)] by (simp add: v1)
  have p2: "py_int 10 ''9007207844675583'' = Inr 9007207844675583"
    using py_int_decimal[OF d2 l(3)] by (simp add: v2)
  have q1: "new_feature_set_divided_of 4294967296 = Inr 1"
    using divided_exact[of 4294967296] by simp
  have bl: "bitlen 9007207844675583 = 54"
    by (simp add: compute_bitlen)
  have q2: "new_feature_set_divided_of 9007207844675583 = Inr 2097154"
    by (simp add: new_feature_set_divided_of_def py_truediv_def nearest_double_def
        floor_log2_quot_def bl bitlen_2_32 round_half_even_def py_int_of_float_def Let_def
        floor_rat_numeral_div)
  obtain w1 where w1: "py_int 16 (CHR ''0'' # CHR ''x'' # last8 ''4294967296'') = Inr w1"
    using py_int_hex_tail[OF d1] by auto
  obtain w2 where w2: "py_int 16 (CHR ''0'' # CHR ''x'' # last8 ''9007207844675583'') = Inr w2"
    using py_int_hex_tail[OF d2] by auto
  have c1: "map_sum id wash_then_charge_cmd_supported (build_device_features ''0'' ''4294967296'')
              = Inr False"
    by (simp add: build_device_features_def p0 p1 q1 w1 device_features_of_def)
  have c2: "map_sum id support_smart_scene (build_device_features ''0'' ''9007207844675583'')
              = Inr True"
    by (simp add: build_device_features_def p0 p2 q2 w2 device_features_of_def)
  have d3: "is_decimal (replicate 4301 (CHR ''0''))"
    by (rule is_decimal_zeros) simp
  have c3: "build_device_features ''0'' (replicate 4301 (CHR ''0'')) = Inl ValueError"
    using py_int_decimal_limit[OF d3] by (simp add: build_device_features_def int_max_str_digits_def)
  have b1: "\<not> bit (2097153::int) 1"
    by (simp add: bit_iff_odd)
  show ?thesis
    by (simp only: d0 d1 d2 d3 v1 v2 c1 c2 c3 b1 simp_thms) simp
qed

subsection \<open>The high part of the extended word\<close>

text \<open>
  Claim C4, as the code has it. For every string of decimal digits that \<^verbatim>\<open>int\<close> accepts (at
  most 4300 characters) denoting a number below \<open>2 ^ 53\<close>, the quantity
  \<open>new_feature_set_divided\<close> of the decoder is the exact integer quotient of that number by
  \<open>2 ^ 32\<close>.
\<close>

theorem extended_high_exact_below_2_53:
  assumes "is_decimal new_feature_set" and "length new_feature_set \<le> int_max_str_digits"
    and "decimal_value new_feature_set < 2 ^ 53"
  shows "new_feature_set_divided_str new_feature_set = Inr (decimal_value new_feature_set div 2 ^ 32)"
  using divided_exact[OF decimal_value_nonneg[OF assms(1)] assms(3)]
  by (simp add: new_feature_set_divided_str_def py_int_decimal[OF assms(1,2)])

theorem extended_high_exact_below_2_53_witness:
  "is_decimal ''12884901901'' \<and> length ''12884901901'' \<le> int_max_str_digits
   \<and> decimal_value ''12884901901'' < 2 ^ 53
   \<and> new_feature_set_divided_str ''12884901901'' = Inr 3"
proof -
  have d: "is_decimal ''12884901901''"
    by (simp add: is_decimal_def is_digit_def)
  have l: "length ''12884901901'' \<le> int_max_str_digits"
    by (simp add: int_max_str_digits_def)
  have v: "decimal_value ''12884901901'' = 12884901901"
    by (simp add: decimal_value_def decimal_value_from_def)
  have b: "decimal_value ''12884901901'' < 2 ^ 53"
    by (simp add: v)
  show ?thesis
    using extended_high_exact_below_2_53[OF d l b] d l b by (simp add: v)
qed

text \<open>
  Claim C4, as the specification states it, holds for all magnitudes. The extended word
  \<open>9007203549708287 = 2 ^ 53 + 2 ^ 32 - 1\<close> is not a double; the division rounds it up to
  \<open>2 ^ 53 + 2 ^ 32\<close>, and the decoder works with 2097153 where the integer quotient is 2097152.
  A string of 4301 zeros denotes the number 0, whose quotient is 0, and the decoder raises
  \<^verbatim>\<open>ValueError\<close> on it.
\<close>

theorem extended_high_rounding_counterexample:
  "is_decimal ''9007203549708287''
   \<and> new_feature_set_divided_str ''9007203549708287'' = Inr 2097153
   \<and> decimal_value ''9007203549708287'' div 2 ^ 32 = 2097152
   \<and> is_decimal (replicate 4301 (CHR ''0''))
   \<and> new_feature_set_divided_str (replicate 4301 (CHR ''0'')) = Inl ValueError
   \<and> decimal_value (replicate 4301 (CHR ''0'')) div 2 ^ 32 = 0"
proof -
  have d: "is_decimal ''9007203549708287''"
    by (simp add: is_decimal_def is_digit_def)
  have l: "length ''9007203549708287'' \<le> int_max_str_digits"
    by (simp add: int_max_str_digits_def)
  have v: "decimal_value ''9007203549708287'' = 9007203549708287"
    by (simp add: decimal_value_def decimal_value_from_def)
  have bl: "bitlen 9007203549708287 = 54"
    by (simp add: compute_bitlen)
  have q: "new_feature_set_divided_of 9007203549708287 = Inr 2097153"
    by (simp add: new_feature_set_divided_of_def py_truediv_def nearest_double_def
        floor_log2_quot_def bl bitlen_2_32 round_half_even_def py_int_of_float_def Let_def
        floor_rat_numeral_div)
  have c1: "new_feature_set_divided_str ''9007203549708287'' = Inr 2097153"
    using py_int_decimal[OF d l] by (simp add: v q new_feature_set_divided_str_def)
  have d3: "is_decimal (replicate 4301 (CHR ''0''))"
    by (rule is_decimal_zeros) simp
  have c3: "new_feature_set_divided_str (replicate 4301 (CHR ''0'')) = Inl ValueError"
    using py_int_decimal_limit[OF d3]
    by (simp add: new_feature_set_divided_str_def int_max_str_digits_def)
  show ?thesis
    by (simp only: d d3 c1 c3 v decimal_value_zeros simp_thms) simp
qed
section \<open>Claims about the codec\<close>

subsection \<open>Remaining life of consumables\<close>

text \<open>
  Claim C1 at the payload \<^verbatim>\<open>{"mainBrushWorkTime": 0}\<close>. The class \<^verbatim>\<open>Consumable\<close> computes its
  time-left fields in a method \<^verbatim>\<open>__post_init__\<close>, which pydantic never calls: the decoded
  object has the counter, and its \<open>main_brush_time_left\<close> is \<^verbatim>\<open>None\<close>, not the replacement
  time.
\<close>

theorem consumable_time_left_not_derived:
  "then_do (from_dict lax_plain Consumable (PDict [(''mainBrushWorkTime'', PInt 0)]))
     (\<lambda>self. Inr (attr ''main_brush_work_time'' self, attr ''main_brush_time_left'' self))
   = Inr (Inr (PInt 0), Inr PNone)"
  by code_simp

subsection \<open>Derived fields\<close>

text \<open>
  Claim C5, as the code has it. For every class, every table of conversions and every payload
  that decodes, the derived fields of the object agree with its source fields whatever the
  payload supplied for them: the areas in square metres, the UTC timestamps and the times of day
  are always recomputed, and a name field of \<^verbatim>\<open>Status\<close> is recomputed when its enumeration
  field is set.
\<close>

theorem derived_fields_recomputed:
  assumes "from_dict lx cls data = Inr self"
  shows "\<exists>fs. self = PObj cls fs \<and> derived_consistent (model_hook cls) fs"
proof -
  from from_dict_Inr[OF assms] obtain vs fs where
    "run_hook (model_hook cls) vs = Inr fs" and "self = PObj cls fs"
    by blast
  with run_hook_Inr(1) show ?thesis by blast
qed

theorem derived_fields_recomputed_witness:
  "from_dict lax_plain CleanSummary
     (PDict [(''cleanArea'', PInt 1250000), (''squareMeterCleanArea'', PFloat 7)])
   = Inr (PObj CleanSummary
       [(''clean_time'', PNone), (''clean_area'', PInt 1250000),
        (''square_meter_clean_area'', PFloat (5404319552844595 / 4503599627370496)),
        (''clean_count'', PNone), (''dust_collection_count'', PNone), (''records'', PNone),
        (''last_clean_t'', PNone)])
   \<and> derived_consistent (model_hook CleanSummary)
       [(''clean_time'', PNone), (''clean_area'', PInt 1250000),
        (''square_meter_clean_area'', PFloat (5404319552844595 / 4503599627370496)),
        (''clean_count'', PNone), (''dust_collection_count'', PNone), (''records'', PNone),
        (''last_clean_t'', PNone)]"
proof -
  have d: "from_dict lax_plain CleanSummary
     (PDict [(''cleanArea'', PInt 1250000), (''squareMeterCleanArea'', PFloat 7)])
   = Inr (PObj CleanSummary
       [(''clean_time'', PNone), (''clean_area'', PInt 1250000),
        (''square_meter_clean_area'', PFloat (5404319552844595 / 4503599627370496)),
        (''clean_count'', PNone), (''dust_collection_count'', PNone), (''records'', PNone),
        (''last_clean_t'', PNone)])"
    by code_simp
  from derived_fields_recomputed[OF d] d show ?thesis by simp
qed

text \<open>
  Claim C5, as the specification states it, has every derived field overwritten. A payload that
  supplies \<^verbatim>\<open>stateName\<close> and no \<^verbatim>\<open>state\<close> decodes to a \<^verbatim>\<open>Status\<close> whose \<open>state\<close> is unset
  and whose \<open>state_name\<close> is the supplied value.
\<close>

theorem status_name_kept_counterexample:
  "then_do (from_dict lax_plain (Status example_tables) (PDict [(''stateName'', PStr ''x'')]))
     (\<lambda>self. Inr (attr ''state'' self, attr ''state_name'' self))
   = Inr (Inr PNone, Inr (PStr ''x''))"
  by code_simp

subsection \<open>Encoding of nested objects\<close>

text \<open>
  Claim C7 at two objects. \<^verbatim>\<open>as_dict\<close> transcodes the keys of the object itself and emits the
  code of its own enumeration fields; \<^verbatim>\<open>model_dump\<close> has by then turned every nested object
  into a dict, so the key \<open>add_time\<close> of a nested \<^verbatim>\<open>MultiMapsListMapInfo\<close> is emitted as it is,
  and the \<open>category\<close> of a nested \<^verbatim>\<open>HomeDataProduct\<close> is emitted as the member, not as its code.
\<close>

theorem nested_encoding_not_transcoded:
  "map_sum id as_dict
     (construct lax_plain MultiMapsList
        [(''max_multi_map'', PInt 1),
         (''map_info'', PList [PDict [(''mapFlag'', PInt 0), (''name'', PStr ''a''), (''add_time'', PInt 5)]])])
   = Inr [(''maxMultiMap'', PInt 1),
          (''mapInfo'', PList [PDict [(''mapFlag'', PInt 0), (''name'', PStr ''a''), (''add_time'', PInt 5)]])]
   \<and> map_sum id as_dict
     (construct lax_plain (HomeData example_tables)
        [(''id'', PInt 1), (''name'', PStr ''h''),
         (''products'', PList [PDict [(''id'', PStr ''p''), (''name'', PStr ''n''), (''model'', PStr ''m''),
                                      (''category'', PInt 1)]])])
   = Inr [(''id'', PInt 1), (''name'', PStr ''h''),
          (''products'', PList [PDict [(''id'', PStr ''p''), (''name'', PStr ''n''), (''model'', PStr ''m''),
                                       (''category'', PEnum (RoborockCategory example_tables) 1)]]),
          (''devices'', PList []), (''receivedDevices'', PList []), (''rooms'', PList [])]"
  by code_simp

subsection \<open>Payloads that are not mappings\<close>

text \<open>
  Claim C8, as the code has it. For every class in which every field has a default (and the
  fields that its hook uses default to \<^verbatim>\<open>None\<close>), and every value that is not a mapping,
  decode returns the default-constructed object: every field holds its default.
\<close>

theorem non_mapping_gives_defaults:
  assumes "\<not> is_dict data" and "all_fields_default cls"
  shows "from_dict lx cls data = Inr (PObj cls (default_attrs cls))"
proof -
  have c: "from_dict lx cls data = construct lx cls []"
    using assms(1) by (cases data) (simp_all add: from_dict_def is_dict_def)
  have v: "validate_fields lx (model_fields cls) [] = Inr (default_attrs cls)"
    using assms(2) by (simp add: all_fields_default_def validate_fields_defaults default_attrs_def)
  have h: "run_hook (model_hook cls) (default_attrs cls) = Inr (default_attrs cls)"
    using assms(2) by (simp add: all_fields_default_def run_hook_defaults)
  show ?thesis by (simp add: c construct_def v h)
qed

theorem non_mapping_gives_defaults_witness:
  "\<not> is_dict (PStr ''offline'') \<and> all_fields_default DnDTimer
   \<and> from_dict lax_plain DnDTimer (PStr ''offline'')
     = Inr (PObj DnDTimer
         [(''start_hour'', PNone), (''start_minute'', PNone), (''end_hour'', PNone),
          (''end_minute'', PNone), (''enabled'', PNone), (''start_time'', PNone),
          (''end_time'', PNone)])"
proof -
  have a: "\<not> is_dict (PStr ''offline'')" by (simp add: is_dict_def)
  have b: "all_fields_default DnDTimer" by code_simp
  have c: "default_attrs DnDTimer =
         [(''start_hour'', PNone), (''start_minute'', PNone), (''end_hour'', PNone),
          (''end_minute'', PNone), (''enabled'', PNone), (''start_time'', PNone),
          (''end_time'', PNone)]"
    by code_simp
  from non_mapping_gives_defaults[OF a b, of lax_plain] a b show ?thesis
    by (simp add: c)
qed

text \<open>
  Claim C8, as the specification states it, holds for every schema. \<^verbatim>\<open>HomeDataRoom\<close> has the
  required fields \<open>id\<close> and \<open>name\<close>; its constructor without arguments raises pydantic's
  validation error, and \<^verbatim>\<open>from_dict\<close> lets it through.
\<close>

theorem required_fields_counterexample:
  "\<not> is_dict (PInt 5) \<and> from_dict lax_plain HomeDataRoom (PInt 5) = Inl ValidationError"
  by code_simp

subsection \<open>Unknown keys and missing optional fields\<close>




subsection \<open>Unregistered codes\<close>

text \<open>
  Claim C6. For every class with a field of an enumeration type, optional or not, and every
  mapping that supplies for the field a value other than \<^verbatim>\<open>None\<close> that denotes no code of the
  field's table, decode raises; where no class nested in the fields runs a hook (so in every
  class of the module that has such a field) the exception is \<^verbatim>\<open>RoborockException\<close> raised
  from pydantic's validation error.
\<close>

theorem unregistered_enum_code_rejected:
  assumes fld: "Field k t dflt \<in> set (model_fields cls)"
    and enum: "is_enum_field tbl t"
    and dec: "decamelize_obj (model_ignore_keys cls) (PDict items) = PDict d"
    and sup: "map_of d k = Some v"
    and nn: "v \<noteq> PNone"
    and unreg: "\<forall>c. enum_code_of lx v = Some c \<longrightarrow> c \<notin> snd ` set tbl"
  shows "(\<exists>e. from_dict lx cls (PDict items) = Inl e)
       \<and> (list_all hook_free_field (model_fields cls)
            \<longrightarrow> from_dict lx cls (PDict items) = Inl (RoborockExceptionFrom ValidationError))"
proof -
  have "validate_field lx (Field k t dflt) d = Inl ValidationError"
    using sup unregistered_rejected[OF enum nn unreg] by simp
  note ve = validate_model_field_error[OF fld this]
  have fd: "from_dict lx cls (PDict items) =
      (case validate_model lx cls d of
         Inl err \<Rightarrow> if is_ValueError err then Inl (RoborockExceptionFrom err) else Inl err
       | Inr obj \<Rightarrow> Inr obj)"
    unfolding from_dict_def Let_def model_validate_def dec by simp
  from ve(1) obtain e where e: "validate_model lx cls d = Inl e" by blast
  have 1: "\<exists>e. from_dict lx cls (PDict items) = Inl e"
    by (simp add: fd e)
  have 2: "from_dict lx cls (PDict items) = Inl (RoborockExceptionFrom ValidationError)"
    if "list_all hook_free_field (model_fields cls)"
    using ve(2)[OF that] by (simp add: fd is_ValueError_def)
  from 1 2 show ?thesis by blast
qed

theorem unregistered_enum_code_rejected_witness:
  "Field ''fan_power'' (TOptional (TEnum (RoborockFanSpeedS7 example_tables))) DefaultNone
     \<in> set (model_fields (S7Status example_tables))
   \<and> is_enum_field (RoborockFanSpeedS7 example_tables) (TOptional (TEnum (RoborockFanSpeedS7 example_tables)))
   \<and> decamelize_obj (model_ignore_keys (S7Status example_tables)) (PDict [(''battery'', PInt 90), (''fanPower'', PInt 9999)])
       = PDict [(''battery'', PInt 90), (''fan_power'', PInt 9999)]
   \<and> map_of [(''battery'', PInt 90), (''fan_power'', PInt 9999)] ''fan_power'' = Some (PInt 9999)
   \<and> PInt 9999 \<noteq> PNone
   \<and> enum_code_of lax_plain (PInt 9999) = Some 9999
   \<and> 9999 \<notin> snd ` set (RoborockFanSpeedS7 example_tables)
   \<and> list_all hook_free_field (model_fields (S7Status example_tables))
   \<and> from_dict lax_plain (S7Status example_tables) (PDict [(''battery'', PInt 90), (''fanPower'', PInt 9999)])
       = Inl (RoborockExceptionFrom ValidationError)"
proof -
  let ?tbl = "RoborockFanSpeedS7 example_tables"
  let ?cls = "S7Status example_tables"
  have fld: "Field ''fan_power'' (TOptional (TEnum ?tbl)) DefaultNone \<in> set (model_fields ?cls)"
    by code_simp
  have enum: "is_enum_field ?tbl (TOptional (TEnum ?tbl))"
    by (simp add: is_enum_field_def)
  have dec: "decamelize_obj (model_ignore_keys ?cls) (PDict [(''battery'', PInt 90), (''fanPower'', PInt 9999)])
       = PDict [(''battery'', PInt 90), (''fan_power'', PInt 9999)]"
    by code_simp
  have sup: "map_of [(''battery'', PInt 90), (''fan_power'', PInt 9999)] ''fan_power'' = Some (PInt 9999)"
    by simp
  have nn: "PInt 9999 \<noteq> PNone" by simp
  have unreg: "\<forall>c. enum_code_of lax_plain (PInt 9999) = Some c \<longrightarrow> c \<notin> snd ` set ?tbl"
    by (simp add: enum_code_of_def lax_plain_def example_tables_def)
  have hf: "list_all hook_free_field (model_fields ?cls)"
    by code_simp
  from unregistered_enum_code_rejected[OF fld enum dec sup nn unreg] hf
  have "from_dict lax_plain ?cls (PDict [(''battery'', PInt 90), (''fanPower'', PInt 9999)])
       = Inl (RoborockExceptionFrom ValidationError)"
    by blast
  moreover have "enum_code_of lax_plain (PInt 9999) = Some 9999"
    by (simp add: enum_code_of_def lax_plain_def)
  moreover have "9999 \<notin> snd ` set ?tbl"
    by (simp add: example_tables_def)
  ultimately show ?thesis using fld enum dec sup nn hf by blast
qed

subsection \<open>Queries for the code of a symbolic name\<close>

text \<open>
  Claim C10. For every object of a class that has the hook of \<^verbatim>\<open>Status\<close> and declares
  \<open>fan_power\<close>, \<open>water_box_mode\<close> and \<open>mop_mode\<close> as optional enumeration fields, built by the
  constructor or by a decode: each of \<^verbatim>\<open>get_fan_speed_code\<close>, \<^verbatim>\<open>get_mop_intensity_code\<close> and
  \<^verbatim>\<open>get_mop_mode_code\<close> raises \<^verbatim>\<open>RoborockException\<close> if its field is unset, and otherwise
  returns the code that the field's table registers for the name, or \<^verbatim>\<open>None\<close> for a name that
  the table does not register.
\<close>

theorem status_code_queries:
  assumes dec: "construct lx cls kwargs = Inr self \<or> from_dict lx cls data = Inr self"
    and dist: "distinct (field_names cls)"
    and hk: "model_hook cls = StatusPostInit"
    and fan: "Field ''fan_power'' (TOptional (TEnum fan)) DefaultNone \<in> set (model_fields cls)"
    and mop: "Field ''water_box_mode'' (TOptional (TEnum intensity)) DefaultNone \<in> set (model_fields cls)"
    and mode: "Field ''mop_mode'' (TOptional (TEnum mode)) DefaultNone \<in> set (model_fields cls)"
  shows "code_query fan ''fan_power'' self fan_speed (get_fan_speed_code self fan_speed)
       \<and> code_query intensity ''water_box_mode'' self mop_intensity (get_mop_intensity_code self mop_intensity)
       \<and> code_query mode ''mop_mode'' self mop_mode (get_mop_mode_code self mop_mode)"
proof -
  have nw: "''fan_power'' \<notin> set (hook_writes (model_hook cls))"
      "''water_box_mode'' \<notin> set (hook_writes (model_hook cls))"
      "''mop_mode'' \<notin> set (hook_writes (model_hook cls))"
    by (simp_all add: hk hook_writes_def)
  show ?thesis
    unfolding get_fan_speed_code_def get_mop_intensity_code_def get_mop_mode_code_def
    using code_query_get_code[OF decoded_optional_enum[OF dec fan nw(1) dist]]
      code_query_get_code[OF decoded_optional_enum[OF dec mop nw(2) dist]]
      code_query_get_code[OF decoded_optional_enum[OF dec mode nw(3) dist]]
    by blast
qed

theorem status_code_queries_witness:
  "from_dict lax_plain (S7Status example_tables) (PDict [(''fanPower'', PInt 102)])
     = Inr (projr (from_dict lax_plain (S7Status example_tables) (PDict [(''fanPower'', PInt 102)])))
   \<and> distinct (field_names (S7Status example_tables))
   \<and> model_hook (S7Status example_tables) = StatusPostInit
   \<and> Field ''fan_power'' (TOptional (TEnum (RoborockFanSpeedS7 example_tables))) DefaultNone
        \<in> set (model_fields (S7Status example_tables))
   \<and> Field ''water_box_mode'' (TOptional (TEnum (RoborockMopIntensityS7 example_tables))) DefaultNone
        \<in> set (model_fields (S7Status example_tables))
   \<and> Field ''mop_mode'' (TOptional (TEnum (RoborockMopModeS7 example_tables))) DefaultNone
        \<in> set (model_fields (S7Status example_tables))
   \<and> code_query (RoborockFanSpeedS7 example_tables) ''fan_power''
        (projr (from_dict lax_plain (S7Status example_tables) (PDict [(''fanPower'', PInt 102)])))
        ''balanced''
        (get_fan_speed_code
           (projr (from_dict lax_plain (S7Status example_tables) (PDict [(''fanPower'', PInt 102)])))
           ''balanced'')
   \<and> get_fan_speed_code
        (projr (from_dict lax_plain (S7Status example_tables) (PDict [(''fanPower'', PInt 102)])))
        ''balanced'' = Inr (PInt 102)
   \<and> get_mop_mode_code
        (projr (from_dict lax_plain (S7Status example_tables) (PDict [(''fanPower'', PInt 102)])))
        ''deep'' = Inl RoborockException"
proof -
  let ?cls = "S7Status example_tables"
  let ?r = "from_dict lax_plain ?cls (PDict [(''fanPower'', PInt 102)])"
  have d: "?r = Inr (projr ?r)" by code_simp
  have dist: "distinct (field_names ?cls)" by code_simp
  have hk: "model_hook ?cls = StatusPostInit" by code_simp
  have fan: "Field ''fan_power'' (TOptional (TEnum (RoborockFanSpeedS7 example_tables))) DefaultNone
        \<in> set (model_fields ?cls)" by code_simp
  have mop: "Field ''water_box_mode'' (TOptional (TEnum (RoborockMopIntensityS7 example_tables))) DefaultNone
        \<in> set (model_fields ?cls)" by code_simp
  have mode: "Field ''mop_mode'' (TOptional (TEnum (RoborockMopModeS7 example_tables))) DefaultNone
        \<in> set (model_fields ?cls)" by code_simp
  have e1: "get_fan_speed_code (projr ?r) ''balanced'' = Inr (PInt 102)" by code_simp
  have e2: "get_mop_mode_code (projr ?r) ''deep'' = Inl RoborockException" by code_simp
  from status_code_queries[OF disjI2[OF d] dist hk fan mop mode, of "''balanced''"]
  show ?thesis using d dist hk fan mop mode e1 e2 by blast
qed


subsection \<open>Decoding what was encoded\<close>







end
